theory Spec2Isabelle
  imports Main
begin

section \<open>Strings\<close>

text \<open>Go strings are byte sequences; \<open>string\<close> is a list of bytes.\<close>

fun HasPrefix :: "string \<Rightarrow> string \<Rightarrow> bool" where
  "HasPrefix s [] = True"
| "HasPrefix [] (p # ps) = False"
| "HasPrefix (c # cs) (p # ps) = (c = p \<and> HasPrefix cs ps)"

text \<open>\<open>strings.Contains(s, substr)\<close>: \<open>substr\<close> occurs in \<open>s\<close> as a contiguous block.\<close>

fun Contains :: "string \<Rightarrow> string \<Rightarrow> bool" where
  "Contains [] sub = (sub = [])"
| "Contains (c # cs) sub = (HasPrefix (c # cs) sub \<or> Contains cs sub)"

text \<open>
  Modelled from the spec: \<open>base.StringContainsAll\<close> is not among the sources. It is true
  when the string contains every non-empty substring given and at least one was given.
\<close>

fun StringContainsAllLoop :: "string \<Rightarrow> string list \<Rightarrow> bool \<Rightarrow> bool" where
  "StringContainsAllLoop s [] nonEmptyStringsFound = nonEmptyStringsFound"
| "StringContainsAllLoop s (sub # subs) nonEmptyStringsFound =
     (if sub = [] then StringContainsAllLoop s subs nonEmptyStringsFound
      else if Contains s sub then StringContainsAllLoop s subs True
      else False)"

definition StringContainsAll :: "string \<Rightarrow> string list \<Rightarrow> bool" where
  "StringContainsAll s subs = StringContainsAllLoop s subs False"

text \<open>
  \<open>strings.ToUpper\<close> on the bytes \<open>a\<close>..\<open>z\<close>; every other byte is kept. (The server
  variables read here are ASCII words.)
\<close>

definition upperByte :: "char \<Rightarrow> char" where
  "upperByte c =
     (if (97::nat) \<le> of_char c \<and> (of_char c :: nat) \<le> 122
      then char_of ((of_char c :: nat) - 32) else c)"

definition ToUpper :: "string \<Rightarrow> string" where
  "ToUpper s = map upperByte s"

section \<open>Inspector: data\<close>

datatype error =
    DbError string
  | InsufficientPrivileges
  | GtidDisabled string
  | BinaryLogsDisabled
  | BinlogFormatNotRow
  | TableIsView
  | TableNotFound
  | WhereParseError string
  | Wrapf error string

datatype level = Debug | Info | Warn | Error

type_synonym logline = "level \<times> string"

text \<open>The fields of \<open>common.MySQLDriverConfig\<close> the inspector reads and writes.\<close>

record MySQLDriverConfig =
  SkipPrivilegeCheck :: bool
  BinlogRowImage :: string

datatype ColumnType =
    UnknownColumnType
  | TimestampColumnType
  | DateTimeColumnType
  | EnumColumnType
  | MediumIntColumnType
  | JSONColumnType
  | FloatColumnType
  | BinaryColumnType
  | TextColumnType

record Column =
  RawName :: string
  Type :: ColumnType

record ColumnList =
  Columns :: "Column list"

record UniqueKey =
  Name :: string
  ukColumns :: ColumnList
  HasNullable :: bool
  IsAutoIncrement :: bool
  LastMaxVals :: "string list"

record Table =
  TableSchema :: string
  TableName :: string
  OriginalTableColumns :: "ColumnList option"
  UseUniqueKey :: "UniqueKey option"
  Where :: string

text \<open>
  The database as the inspector sees it: the outcome of each query and of each helper
  that is not among the sources. A row of \<open>show grants\<close> is the list of its cells.
\<close>

record inspector_db =
  showGrants :: "error + string list list"
  logBinAndFormat :: "error + bool \<times> string"
  rowImage :: "error + string"
  tableStatusComments :: "error + string list"
  candidateUniqueKeys :: "UniqueKey list \<times> error option"
  tableColumns :: "ColumnList option \<times> error option"
  ApplyColumnTypes :: "ColumnList \<Rightarrow> ColumnList"
  NewWhereCtx :: "string \<Rightarrow> Table \<Rightarrow> error option"

section \<open>Inspector: validateGrants\<close>

record grants =
  foundAll :: bool
  foundSuper :: bool
  foundReplicationClient :: bool
  foundReplicationSlave :: bool
  foundDBAll :: bool

definition noGrants :: grants where
  "noGrants = \<lparr>foundAll = False, foundSuper = False, foundReplicationClient = False,
     foundReplicationSlave = False, foundDBAll = False\<rparr>"

text \<open>The body of the loop over the cells of one row.\<close>

definition scanGrant :: "string \<Rightarrow> grants \<Rightarrow> grants" where
  "scanGrant grant g =
     (let g1 = (if Contains grant ''GRANT ALL PRIVILEGES ON'' then g\<lparr>foundAll := True\<rparr> else g);
          g2 = (if Contains grant ''SUPER'' then g1\<lparr>foundSuper := True\<rparr> else g1);
          g3 = (if Contains grant ''REPLICATION CLIENT''
                then g2\<lparr>foundReplicationClient := True\<rparr> else g2);
          g4 = (if Contains grant ''REPLICATION SLAVE''
                then g3\<lparr>foundReplicationSlave := True\<rparr> else g3)
      in if StringContainsAll grant [''SELECT''] then g4\<lparr>foundDBAll := True\<rparr> else g4)"

fun scanRow :: "string list \<Rightarrow> grants \<Rightarrow> grants" where
  "scanRow [] g = g"
| "scanRow (grant # cells) g = scanRow cells (scanGrant grant g)"

fun scanRows :: "string list list \<Rightarrow> grants \<Rightarrow> grants" where
  "scanRows [] g = g"
| "scanRows (rowMap # rows) g = scanRows rows (scanRow rowMap g)"

text \<open>The result is the error (\<open>None\<close> is Go's \<open>nil\<close>) and the queries sent.\<close>

definition validateGrants :: "MySQLDriverConfig \<Rightarrow> inspector_db \<Rightarrow> error option \<times> string list" where
  "validateGrants cfg db =
     (if SkipPrivilegeCheck cfg then (None, [])
      else
        (case showGrants db of
           Inl err \<Rightarrow> (Some err, [''show grants for current_user()''])
         | Inr rows \<Rightarrow>
             (let g = scanRows rows noGrants in
              if foundAll g then (None, [''show grants for current_user()''])
              else if foundSuper g \<and> foundReplicationSlave g \<and> foundDBAll g
                then (None, [''show grants for current_user()''])
              else if foundReplicationClient g \<and> foundReplicationSlave g \<and> foundDBAll g
                then (None, [''show grants for current_user()''])
              else (Some InsufficientPrivileges, [''show grants for current_user()'']))))"

section \<open>Inspector: validateBinlogs\<close>

text \<open>The configuration after the call, and the error.\<close>

definition validateBinlogs :: "MySQLDriverConfig \<Rightarrow> inspector_db \<Rightarrow> MySQLDriverConfig \<times> error option" where
  "validateBinlogs cfg db =
     (case logBinAndFormat db of
        Inl err \<Rightarrow> (cfg, Some err)
      | Inr (hasBinaryLogs, binlogFormat) \<Rightarrow>
          if \<not> hasBinaryLogs then (cfg, Some BinaryLogsDisabled)
          else if binlogFormat \<noteq> ''ROW'' then (cfg, Some BinlogFormatNotRow)
          else
            (let cfg1 = (case rowImage db of
                           Inl err \<Rightarrow> cfg\<lparr>BinlogRowImage := ''FULL''\<rparr>
                         | Inr img \<Rightarrow> cfg\<lparr>BinlogRowImage := img\<rparr>)
             in (cfg1\<lparr>BinlogRowImage := ToUpper (BinlogRowImage cfg1)\<rparr>, None)))"

section \<open>Inspector: ValidateOriginalTable\<close>

definition validateTable :: "inspector_db \<Rightarrow> error option" where
  "validateTable db =
     (case tableStatusComments db of
        Inl err \<Rightarrow> Some err
      | Inr comments \<Rightarrow>
          if ''VIEW'' \<in> set comments then Some TableIsView
          else if comments = [] then Some TableNotFound
          else None)"

text \<open>
  Modelled from the spec: \<open>UniqueKey.IsPrimary\<close> is not among the sources; the candidate
  is the primary key when its index name is \<open>PRIMARY\<close>.
\<close>

definition IsPrimary :: "UniqueKey \<Rightarrow> bool" where
  "IsPrimary uk = (Name uk = ''PRIMARY'')"

text \<open>The loop over the columns of a candidate, with the warnings it logs.\<close>

fun columnTypesLoop :: "Column list \<Rightarrow> bool \<times> logline list \<Rightarrow> bool \<times> logline list" where
  "columnTypesLoop [] st = st"
| "columnTypesLoop (column # columns) (uniqueKeyIsValid, lg) =
     (case Type column of
        FloatColumnType \<Rightarrow>
          columnTypesLoop columns
            (False, lg @ [(Warn, ''Will not use the unique key due to FLOAT data type'')])
      | JSONColumnType \<Rightarrow>
          columnTypesLoop columns
            (False, lg @ [(Warn, ''Will not use the unique key due to JSON data type'')])
      | _ \<Rightarrow> columnTypesLoop columns (uniqueKeyIsValid, lg))"

text \<open>One candidate: whether it is valid, and the log.\<close>

definition checkUniqueKey :: "MySQLDriverConfig \<Rightarrow> UniqueKey \<Rightarrow> logline list \<Rightarrow> bool \<times> logline list" where
  "checkUniqueKey cfg uk lg =
     (let (v1, lg1) = columnTypesLoop (Columns (ukColumns uk)) (True, lg @ [(Debug, ''a unique key'')]);
          (v2, lg2) = (if HasNullable uk
                       then (False, lg1 @ [(Warn, ''Will not use the unique key due to having nullable'')])
                       else (v1, lg1))
      in if \<not> IsPrimary uk \<and> ''FULL'' \<noteq> BinlogRowImage cfg
         then (False, lg2 @ [(Warn, ''Will not use the unique key due to not primary when binlog row image is FULL'')])
         else (v2, lg2))"

text \<open>
  The loop over the candidates. \<open>ApplyColumnTypes\<close> fills in the column types of the
  candidate in place before it is examined. The state is \<open>table.UseUniqueKey\<close> and the log.
\<close>

fun uniqueKeysLoop ::
  "MySQLDriverConfig \<Rightarrow> (ColumnList \<Rightarrow> ColumnList) \<Rightarrow> UniqueKey list \<Rightarrow>
   UniqueKey option \<times> logline list \<Rightarrow> UniqueKey option \<times> logline list" where
  "uniqueKeysLoop cfg act [] st = st"
| "uniqueKeysLoop cfg act (uk0 # uks) (useUniqueKey, lg) =
     (let uk = uk0\<lparr>ukColumns := act (ukColumns uk0)\<rparr>;
          (uniqueKeyIsValid, lg1) = checkUniqueKey cfg uk lg
      in if uniqueKeyIsValid then
           (if IsPrimary uk then (Some uk, lg1)
            else if useUniqueKey = None then uniqueKeysLoop cfg act uks (Some uk, lg1)
            else uniqueKeysLoop cfg act uks (useUniqueKey, lg1))
         else uniqueKeysLoop cfg act uks (useUniqueKey, lg1))"

text \<open>
  The table after the call (it is changed through the pointer also when an error is
  returned), the error and the log. \<open>table.ColumnMap\<close>, which no later step of the function
  reads, is left out.
\<close>

definition ValidateOriginalTable ::
  "MySQLDriverConfig \<Rightarrow> inspector_db \<Rightarrow> Table \<Rightarrow> Table \<times> error option \<times> logline list" where
  "ValidateOriginalTable cfg db table =
     (let lg0 = [(Info, ''ValidateOriginalTable'')] in
      case validateTable db of
        Some err \<Rightarrow> (table, Some err, lg0)
      | None \<Rightarrow>
          (case candidateUniqueKeys db of
             (uniqueKeys, Some err) \<Rightarrow> (table\<lparr>OriginalTableColumns := None\<rparr>, Some err, lg0)
           | (uniqueKeys, None) \<Rightarrow>
               (case tableColumns db of
                  (columns, Some err) \<Rightarrow> (table\<lparr>OriginalTableColumns := columns\<rparr>, Some err, lg0)
                | (columns, None) \<Rightarrow>
                    (let table1 = table\<lparr>OriginalTableColumns := columns\<rparr>;
                         (useUniqueKey, lg1) =
                            uniqueKeysLoop cfg (ApplyColumnTypes db) uniqueKeys
                              (UseUniqueKey table1, lg0 @ [(Debug, ''table has unique keys'')]);
                         table2 = table1\<lparr>UseUniqueKey := useUniqueKey\<rparr>;
                         lg2 = (if useUniqueKey = None
                                then lg1 @ [(Warn, ''No valid unique key found. It will be slow on large table.'')]
                                else lg1 @ [(Info, ''chosen unique key'')])
                     in case NewWhereCtx db (Where table2) table2 of
                          Some err \<Rightarrow> (table2, Some err, lg2 @ [(Error, ''Error parsing where'')])
                        | None \<Rightarrow> (table2, None, lg2)))))"

section \<open>Inspector: what the shown grants contain\<close>

text \<open>Some cell of some row of \<open>show grants\<close> contains the substring.\<close>

definition grantsContain :: "string list list \<Rightarrow> string \<Rightarrow> bool" where
  "grantsContain rows sub = list_ex (list_ex (\<lambda>grant. Contains grant sub)) rows"

definition sufficientGrants :: "string list list \<Rightarrow> bool" where
  "sufficientGrants rows =
     (grantsContain rows ''GRANT ALL PRIVILEGES ON''
      \<or> (grantsContain rows ''SUPER'' \<and> grantsContain rows ''REPLICATION SLAVE''
          \<and> grantsContain rows ''SELECT'')
      \<or> (grantsContain rows ''REPLICATION CLIENT'' \<and> grantsContain rows ''REPLICATION SLAVE''
          \<and> grantsContain rows ''SELECT''))"

section \<open>Inspector: the key selection rule as the specification words it\<close>

text \<open>
  A candidate is valid when none of its columns is FLOAT or JSON, it has no nullable
  column, and it is the primary key or the row image is FULL. Among the valid candidates
  the primary key is preferred, otherwise the first one is taken.
\<close>

definition keyIsValid :: "MySQLDriverConfig \<Rightarrow> UniqueKey \<Rightarrow> bool" where
  "keyIsValid cfg uk =
     (list_all (\<lambda>c. Type c \<noteq> FloatColumnType \<and> Type c \<noteq> JSONColumnType) (Columns (ukColumns uk))
      \<and> \<not> HasNullable uk
      \<and> (IsPrimary uk \<or> BinlogRowImage cfg = ''FULL''))"

definition typedKeys :: "(ColumnList \<Rightarrow> ColumnList) \<Rightarrow> UniqueKey list \<Rightarrow> UniqueKey list" where
  "typedKeys act uks = map (\<lambda>uk. uk\<lparr>ukColumns := act (ukColumns uk)\<rparr>) uks"

definition specChosenKey :: "MySQLDriverConfig \<Rightarrow> UniqueKey list \<Rightarrow> UniqueKey option" where
  "specChosenKey cfg candidates =
     (let accepted = filter (keyIsValid cfg) candidates in
      case filter IsPrimary accepted of
        p # _ \<Rightarrow> Some p
      | [] \<Rightarrow> (case accepted of [] \<Rightarrow> None | u # _ \<Rightarrow> Some u))"

section \<open>Inspector: example inputs\<close>

definition exampleDb :: "string list list \<Rightarrow> UniqueKey list \<Rightarrow> error option \<Rightarrow> inspector_db" where
  "exampleDb rows uks whereErr = \<lparr>showGrants = Inr rows, logBinAndFormat = Inr (True, ''ROW''),
     rowImage = Inr ''full'', tableStatusComments = Inr [''''],
     candidateUniqueKeys = (uks, None), tableColumns = (None, None),
     ApplyColumnTypes = (\<lambda>c. c), NewWhereCtx = (\<lambda>w t. whereErr)\<rparr>"

definition exampleKey :: "string \<Rightarrow> ColumnType \<Rightarrow> UniqueKey" where
  "exampleKey n ty = \<lparr>Name = n, ukColumns = \<lparr>Columns = [\<lparr>RawName = n, Type = ty\<rparr>]\<rparr>,
     HasNullable = False, IsAutoIncrement = False, LastMaxVals = [[]]\<rparr>"

definition exampleTable :: Table where
  "exampleTable = \<lparr>TableSchema = ''s'', TableName = ''t'', OriginalTableColumns = None,
     UseUniqueKey = None, Where = ''true''\<rparr>"

definition fullCfg :: MySQLDriverConfig where
  "fullCfg = \<lparr>SkipPrivilegeCheck = False, BinlogRowImage = ''FULL''\<rparr>"

section \<open>Applier: ApplyEventQueries\<close>

record DumpEntry =
  SystemVariablesStatement :: string
  SqlMode :: string
  DbSQL :: string
  TbSQL :: "string list"
  EntryTableSchema :: string
  EntryTableName :: string
  ValuesX :: "string option list list"

text \<open>
  The destination as the applier sees it: the worker connections \<open>a.dbs\<close>, the
  transaction opened on \<open>db\<close> (a statement's outcome may depend on the statements sent
  before it), and the helpers that are not among the sources.
\<close>

record applier_env =
  nDbs :: nat
  dbsExec :: "nat \<Rightarrow> string \<Rightarrow> error option"
  BeginTx :: "error option"
  txExec :: "string list \<Rightarrow> string \<Rightarrow> error option"
  txCommit :: "string list \<Rightarrow> error option"
  IgnoreError :: "error \<Rightarrow> bool"
  IgnoreExistsError :: "error \<Rightarrow> bool"
  EscapeName :: "string \<Rightarrow> string"
  EscapeValue :: "string \<Rightarrow> string"
  StrLim :: "string \<Rightarrow> nat \<Rightarrow> string"

text \<open>What has been sent so far, on the worker connections and in the transaction, and the log.\<close>

record ap_state =
  dbsSent :: "(nat \<times> string) list"
  txSent :: "string list"
  logged :: "logline list"

text \<open>
  The outcome of a call: the error returned, whether the transaction was begun, whether
  the deferred \<open>Commit\<close> succeeded, the errors handed to \<open>a.onError\<close>, and the number
  added to \<open>TotalRowsReplayed\<close>.
\<close>

record ap_result =
  final :: ap_state
  ret :: "error option"
  txBegun :: bool
  txCommitted :: bool
  onErrors :: "error list"
  rowsReplayed :: nat

definition BufSizeLimit :: nat where
  "BufSizeLimit = 1 * 1024 * 1024"

definition logTo :: "ap_state \<Rightarrow> level \<Rightarrow> string \<Rightarrow> ap_state" where
  "logTo st l msg = st\<lparr>logged := logged st @ [(l, msg)]\<rparr>"

text \<open>The loops over \<open>a.dbs\<close> for the system variables and the SQL mode.\<close>

fun dbsLoop :: "applier_env \<Rightarrow> string \<Rightarrow> string \<Rightarrow> nat list \<Rightarrow> ap_state \<Rightarrow> ap_state \<times> error option" where
  "dbsLoop env msg query [] st = (st, None)"
| "dbsLoop env msg query (i # is) st =
     (let st1 = (logTo st Debug msg)\<lparr>dbsSent := dbsSent st @ [(i, query)]\<rparr> in
      case dbsExec env i query of
        Some err \<Rightarrow> (logTo st1 Error ''err exec sysvar query.'', Some err)
      | None \<Rightarrow> dbsLoop env msg query is st1)"

text \<open>The closure \<open>execQuery\<close>.\<close>

definition execQuery :: "applier_env \<Rightarrow> ap_state \<Rightarrow> string \<Rightarrow> ap_state \<times> error option" where
  "execQuery env st query =
     (let st1 = (logTo st Debug ''ApplyEventQueries. exec'')\<lparr>txSent := txSent st @ [query]\<rparr> in
      case txExec env (txSent st) query of
        None \<Rightarrow> (st1, None)
      | Some err \<Rightarrow>
          (let queryStart = StrLim env query 10;
               errCtx = Wrapf err (''tx.Exec. queryStart '' @ queryStart @ '' seq'')
           in if \<not> IgnoreError env err
              then (logTo st1 Error ''ApplyEventQueries. exec error'', Some errCtx)
              else if \<not> IgnoreExistsError env err
              then (logTo st1 Warn ''ApplyEventQueries. ignore error'', None)
              else (st1, None)))"

text \<open>The loop over \<open>queries\<close>.\<close>

fun queriesLoop :: "applier_env \<Rightarrow> string list \<Rightarrow> ap_state \<Rightarrow> ap_state \<times> error option" where
  "queriesLoop env [] st = (st, None)"
| "queriesLoop env (query # queries) st =
     (if query = [] then queriesLoop env queries st
      else case execQuery env st query of
             (st1, Some err) \<Rightarrow> (st1, Some err)
           | (st1, None) \<Rightarrow> queriesLoop env queries st1)"

text \<open>The loop over the cells of a row, appending to the buffer.\<close>

fun cellsLoop :: "applier_env \<Rightarrow> string option list \<Rightarrow> bool \<Rightarrow> string \<Rightarrow> string" where
  "cellsLoop env [] firstCol buf = buf"
| "cellsLoop env (colData # cells) firstCol buf =
     (let buf1 = (if firstCol then buf else buf @ '','') in
      case colData of
        Some bs \<Rightarrow> cellsLoop env cells False (buf1 @ [CHR 0x27] @ EscapeValue env bs @ [CHR 0x27])
      | None \<Rightarrow> cellsLoop env cells False (buf1 @ ''NULL''))"

text \<open>
  The loop over the rows. The row at hand is the last one (\<open>i == len(entry.ValuesX)-1\<close>)
  when no row follows it.
\<close>

fun rowsLoop ::
  "applier_env \<Rightarrow> nat \<Rightarrow> string \<Rightarrow> string option list list \<Rightarrow> string \<Rightarrow> ap_state \<Rightarrow> ap_state \<times> error option" where
  "rowsLoop env lim hdr [] buf st = (st, None)"
| "rowsLoop env lim hdr (row # rows) buf st =
     (let buf1 = (if length buf = 0 then buf @ hdr else buf @ '',('');
          buf2 = cellsLoop env row True buf1 @ '')'';
          needInsert = (rows = [] \<or> length buf2 \<ge> lim)
      in if needInsert then
           (case execQuery env st buf2 of
              (st1, Some err) \<Rightarrow> (st1, Some err)
            | (st1, None) \<Rightarrow> rowsLoop env lim hdr rows [] st1)
         else rowsLoop env lim hdr rows buf2 st)"

definition replaceHeader :: "applier_env \<Rightarrow> DumpEntry \<Rightarrow> string" where
  "replaceHeader env entry =
     ''replace into '' @ EscapeName env (EntryTableSchema entry) @ ''.''
       @ EscapeName env (EntryTableName entry) @ '' values (''"

text \<open>From the session statement to the end of the rows: what runs under the deferred commit.\<close>

definition txBody :: "applier_env \<Rightarrow> nat \<Rightarrow> DumpEntry \<Rightarrow> ap_state \<Rightarrow> ap_state \<times> error option" where
  "txBody env lim entry st =
     (let sessionQuery = ''SET @@session.foreign_key_checks = 0'';
          st1 = st\<lparr>txSent := txSent st @ [sessionQuery]\<rparr> in
      case txExec env (txSent st) sessionQuery of
        Some err \<Rightarrow> (st1, Some err)
      | None \<Rightarrow>
          (case queriesLoop env
                  ([SystemVariablesStatement entry, SqlMode entry, DbSQL entry] @ TbSQL entry) st1 of
             (st2, Some err) \<Rightarrow> (st2, Some err)
           | (st2, None) \<Rightarrow> rowsLoop env lim (replaceHeader env entry) (ValuesX entry) [] st2))"

text \<open>The deferred function: it commits whatever the body returned.\<close>

definition deferredCommit :: "applier_env \<Rightarrow> nat \<Rightarrow> ap_state \<times> error option \<Rightarrow> ap_result" where
  "deferredCommit env nRows r =
     (case txCommit env (txSent (fst r)) of
        Some err \<Rightarrow> \<lparr>final = logTo (fst r) Error ''onError'', ret = snd r, txBegun = True,
                      txCommitted = False, onErrors = [err], rowsReplayed = nRows\<rparr>
      | None \<Rightarrow> \<lparr>final = fst r, ret = snd r, txBegun = True,
                   txCommitted = True, onErrors = [], rowsReplayed = nRows\<rparr>)"

definition noTx :: "ap_state \<Rightarrow> error \<Rightarrow> ap_result" where
  "noTx st err = \<lparr>final = st, ret = Some err, txBegun = False, txCommitted = False,
     onErrors = [], rowsReplayed = 0\<rparr>"

text \<open>
  ApplyEventQueries, with the limit of the buffer as a parameter. The sleep of the test
  stub \<open>stubFullApplyDelay\<close> is left out.
\<close>

definition ApplyEventQueriesLim :: "applier_env \<Rightarrow> nat \<Rightarrow> DumpEntry \<Rightarrow> ap_result" where
  "ApplyEventQueriesLim env lim entry =
     (let st0 = \<lparr>dbsSent = [], txSent = [], logged = [(Debug, ''ApplyEventQueries'')]\<rparr> in
      case (if SystemVariablesStatement entry \<noteq> []
            then dbsLoop env ''exec sysvar query'' (SystemVariablesStatement entry) [0..<nDbs env] st0
            else (st0, None)) of
        (st1, Some err) \<Rightarrow> noTx st1 err
      | (st1, None) \<Rightarrow>
          (case (if SqlMode entry \<noteq> []
                 then dbsLoop env ''exec sqlmode query'' (SqlMode entry) [0..<nDbs env] st1
                 else (st1, None)) of
             (st2, Some err) \<Rightarrow> noTx st2 err
           | (st2, None) \<Rightarrow>
               (case BeginTx env of
                  Some err \<Rightarrow> noTx st2 err
                | None \<Rightarrow>
                    deferredCommit env (length (ValuesX entry)) (txBody env lim entry st2))))"

definition ApplyEventQueries :: "applier_env \<Rightarrow> DumpEntry \<Rightarrow> ap_result" where
  "ApplyEventQueries env entry = ApplyEventQueriesLim env BufSizeLimit entry"

section \<open>Applier: the statements as the specification words them\<close>

text \<open>\<open>strings.Join\<close>.\<close>

fun joinWith :: "string \<Rightarrow> string list \<Rightarrow> string" where
  "joinWith sep [] = []"
| "joinWith sep [x] = x"
| "joinWith sep (x # y # ys) = x @ sep @ joinWith sep (y # ys)"

text \<open>A NULL cell is the token \<open>NULL\<close>; any other cell is escaped and single-quoted.\<close>

definition renderCell :: "applier_env \<Rightarrow> string option \<Rightarrow> string" where
  "renderCell env colData =
     (case colData of None \<Rightarrow> ''NULL'' | Some bs \<Rightarrow> [CHR 0x27] @ EscapeValue env bs @ [CHR 0x27])"

definition renderRow :: "applier_env \<Rightarrow> string option list \<Rightarrow> string" where
  "renderRow env row = ''('' @ joinWith '','' (map (renderCell env) row) @ '')''"

definition specHeader :: "applier_env \<Rightarrow> DumpEntry \<Rightarrow> string" where
  "specHeader env entry =
     ''replace into '' @ EscapeName env (EntryTableSchema entry) @ ''.''
       @ EscapeName env (EntryTableName entry) @ '' values ''"

text \<open>One statement: the header and the rendered rows of a batch, separated by commas.\<close>

definition stmtOf :: "string \<Rightarrow> string list \<Rightarrow> string" where
  "stmtOf h0 batch = h0 @ joinWith '','' batch"

text \<open>
  The batches: rows are added to the batch at hand until its statement reaches the limit
  or the last row has been added; then the next batch starts.
\<close>

fun batches :: "nat \<Rightarrow> string \<Rightarrow> string list \<Rightarrow> string list \<Rightarrow> string list list" where
  "batches lim h0 [] batch = []"
| "batches lim h0 (r # rs) batch =
     (if rs = [] \<or> lim \<le> length (stmtOf h0 (batch @ [r]))
      then (batch @ [r]) # batches lim h0 rs []
      else batches lim h0 rs (batch @ [r]))"

text \<open>Sending statements in order: a swallowed error goes on, any other error stops.\<close>

fun execAll :: "applier_env \<Rightarrow> ap_state \<Rightarrow> string list \<Rightarrow> ap_state \<times> error option" where
  "execAll env st [] = (st, None)"
| "execAll env st (q # qs) =
     (case execQuery env st q of
        (st1, Some err) \<Rightarrow> (st1, Some err)
      | (st1, None) \<Rightarrow> execAll env st1 qs)"

definition rowBatches :: "applier_env \<Rightarrow> nat \<Rightarrow> DumpEntry \<Rightarrow> string list list" where
  "rowBatches env lim entry =
     batches lim (specHeader env entry) (map (renderRow env) (ValuesX entry)) []"

definition sessionQuery :: string where
  "sessionQuery = ''SET @@session.foreign_key_checks = 0''"

text \<open>Every statement of an entry that goes through \<open>execQuery\<close>, in order.\<close>

definition allStatements :: "applier_env \<Rightarrow> nat \<Rightarrow> DumpEntry \<Rightarrow> string list" where
  "allStatements env lim entry =
     filter (\<lambda>q. q \<noteq> []) ([SystemVariablesStatement entry, SqlMode entry, DbSQL entry] @ TbSQL entry)
     @ map (stmtOf (specHeader env entry)) (rowBatches env lim entry)"

text \<open>The statements of the entry before the rows: the ones that are not empty.\<close>

definition ddlStatements :: "DumpEntry \<Rightarrow> string list" where
  "ddlStatements entry =
     filter (\<lambda>q. q \<noteq> []) ([SystemVariablesStatement entry, SqlMode entry, DbSQL entry] @ TbSQL entry)"

text \<open>The first error in a list of outcomes.\<close>

fun firstError :: "error option list \<Rightarrow> error option" where
  "firstError [] = None"
| "firstError (Some err # rs) = Some err"
| "firstError (None # rs) = firstError rs"

text \<open>
  The error of a statement sent on every worker connection in turn, when the statement
  is not empty; and the error that ends the call before the transaction is begun.
\<close>

definition dbsError :: "applier_env \<Rightarrow> string \<Rightarrow> error option" where
  "dbsError env q = (if q = [] then None else firstError (map (\<lambda>i. dbsExec env i q) [0..<nDbs env]))"

definition preTxError :: "applier_env \<Rightarrow> DumpEntry \<Rightarrow> error option" where
  "preTxError env entry =
     (case dbsError env (SystemVariablesStatement entry) of
        Some err \<Rightarrow> Some err
      | None \<Rightarrow>
          (case dbsError env (SqlMode entry) of
             Some err \<Rightarrow> Some err
           | None \<Rightarrow> BeginTx env))"

text \<open>
  Sending statements in the transaction, from what was sent before: a statement that
  succeeds, or fails with an error that IgnoreError accepts, is followed by the next one;
  the first other error ends the sending and is returned wrapped. The result is what was
  sent, the statements whose error was swallowed with a warning (IgnoreExistsError does
  not accept it), and the error.
\<close>

fun specSend :: "applier_env \<Rightarrow> string list \<Rightarrow> string list \<Rightarrow> string list \<times> string list \<times> error option" where
  "specSend env sent [] = (sent, [], None)"
| "specSend env sent (q # qs) =
     (case txExec env sent q of
        None \<Rightarrow> specSend env (sent @ [q]) qs
      | Some err \<Rightarrow>
          if IgnoreError env err then
            (fst (specSend env (sent @ [q]) qs),
             (if IgnoreExistsError env err then [] else [q]) @ fst (snd (specSend env (sent @ [q]) qs)),
             snd (snd (specSend env (sent @ [q]) qs)))
          else (sent @ [q], [], Some (Wrapf err (''tx.Exec. queryStart '' @ StrLim env q 10 @ '' seq''))))"

definition warnCount :: "logline list \<Rightarrow> nat" where
  "warnCount lg = length (filter (\<lambda>l. fst l = Warn) lg)"


text \<open>
  What is sent on the worker connections: a statement that is not empty goes to each
  connection in turn, up to the first one that fails; the SQL mode follows the system
  variables when these did not fail.
\<close>

fun sentOnConns :: "applier_env \<Rightarrow> string \<Rightarrow> nat list \<Rightarrow> (nat \<times> string) list" where
  "sentOnConns env q [] = []"
| "sentOnConns env q (i # is) =
     (i, q) # (case dbsExec env i q of Some err \<Rightarrow> [] | None \<Rightarrow> sentOnConns env q is)"

definition connsSent :: "applier_env \<Rightarrow> string \<Rightarrow> (nat \<times> string) list" where
  "connsSent env q = (if q = [] then [] else sentOnConns env q [0..<nDbs env])"

definition specDbsSent :: "applier_env \<Rightarrow> DumpEntry \<Rightarrow> (nat \<times> string) list" where
  "specDbsSent env entry =
     connsSent env (SystemVariablesStatement entry)
     @ (case dbsError env (SystemVariablesStatement entry) of
          Some err \<Rightarrow> []
        | None \<Rightarrow> connsSent env (SqlMode entry))"

section \<open>Applier: example inputs\<close>

definition exampleEnv :: "(string \<Rightarrow> error option) \<Rightarrow> (error \<Rightarrow> bool) \<Rightarrow> (error \<Rightarrow> bool) \<Rightarrow> applier_env" where
  "exampleEnv fails ign ignExists =
     \<lparr>nDbs = 1, dbsExec = (\<lambda>i q. None), BeginTx = None, txExec = (\<lambda>sent q. fails q),
      txCommit = (\<lambda>sent. None), IgnoreError = ign, IgnoreExistsError = ignExists,
      EscapeName = (\<lambda>n. ''`'' @ n @ ''`''), EscapeValue = (\<lambda>v. v), StrLim = (\<lambda>s n. take n s)\<rparr>"

definition exampleEntry :: "string option list list \<Rightarrow> DumpEntry" where
  "exampleEntry rows =
     \<lparr>SystemVariablesStatement = [], SqlMode = [], DbSQL = ''create database d'',
      TbSQL = [''create table t''], EntryTableSchema = ''s'', EntryTableName = ''t'', ValuesX = rows\<rparr>"

definition failsOn :: "string \<Rightarrow> error \<Rightarrow> string \<Rightarrow> error option" where
  "failsOn bad err q = (if q = bad then Some err else None)"

section \<open>SQL AST merge: slices\<close>

text \<open>
  A Go slice is a view of a backing array: the array, the offset of the view in it, its
  length and its capacity; a nil slice has no array. The arrays of one element type live
  in a store, a list indexed by the identity of the array. Two slices on the same array
  see each other's writes.
\<close>

datatype panic = SliceBoundsOutOfRange nat nat | IndexOutOfRange nat nat

record slice =
  ptr :: "nat option"
  off :: nat
  len :: nat
  cap :: nat

definition bindP :: "panic + 'a \<Rightarrow> ('a \<Rightarrow> panic + 'b) \<Rightarrow> panic + 'b" where
  "bindP m f = (case m of Inl p \<Rightarrow> Inl p | Inr x \<Rightarrow> f x)"

text \<open>The elements a slice shows.\<close>

definition elems :: "'a list list \<Rightarrow> slice \<Rightarrow> 'a list" where
  "elems store s = (case ptr s of None \<Rightarrow> [] | Some a \<Rightarrow> take (len s) (drop (off s) (store ! a)))"

text \<open>\<open>s[i]\<close>\<close>

definition index :: "'a list list \<Rightarrow> slice \<Rightarrow> nat \<Rightarrow> panic + 'a" where
  "index store s i =
     (case ptr s of
        None \<Rightarrow> Inl (IndexOutOfRange i 0)
      | Some a \<Rightarrow> if i < len s then Inr (store ! a ! (off s + i)) else Inl (IndexOutOfRange i (len s)))"

text \<open>\<open>s[i] = v\<close>\<close>

definition setIndex :: "'a list list \<Rightarrow> slice \<Rightarrow> nat \<Rightarrow> 'a \<Rightarrow> panic + 'a list list" where
  "setIndex store s i v =
     (case ptr s of
        None \<Rightarrow> Inl (IndexOutOfRange i 0)
      | Some a \<Rightarrow> if i < len s then Inr (store[a := (store ! a)[off s + i := v]])
                  else Inl (IndexOutOfRange i (len s)))"

text \<open>\<open>s[:i]\<close>: the upper bound may go up to the capacity.\<close>

definition sliceTo :: "slice \<Rightarrow> nat \<Rightarrow> panic + slice" where
  "sliceTo s i = (if i \<le> cap s then Inr (s\<lparr>len := i\<rparr>) else Inl (SliceBoundsOutOfRange i (cap s)))"

text \<open>\<open>s[i:]\<close>: the upper bound is the length.\<close>

definition sliceFrom :: "slice \<Rightarrow> nat \<Rightarrow> panic + slice" where
  "sliceFrom s i =
     (if i \<le> len s then Inr (s\<lparr>off := off s + i, len := len s - i, cap := cap s - i\<rparr>)
      else Inl (SliceBoundsOutOfRange i (len s)))"

text \<open>
  \<open>append(s, vs...)\<close>: in place when the capacity suffices, into a new array otherwise.
  The new array is given exactly the capacity needed; Go may give more, which no other
  slice can observe.
\<close>

definition appendSlice :: "'a list list \<Rightarrow> slice \<Rightarrow> 'a list \<Rightarrow> 'a list list \<times> slice" where
  "appendSlice store s vs =
     (if vs = [] then (store, s)
      else if len s + length vs \<le> cap s then
        (case ptr s of
           None \<Rightarrow> (store, s)
         | Some a \<Rightarrow>
             (store[a := take (off s + len s) (store ! a) @ vs
                         @ drop (off s + len s + length vs) (store ! a)],
              s\<lparr>len := len s + length vs\<rparr>))
      else (store @ [elems store s @ vs],
            \<lparr>ptr = Some (length store), off = 0, len = len s + length vs, cap = len s + length vs\<rparr>))"

text \<open>\<open>s = append(s[:i], s[i+1:]...)\<close>\<close>

definition removeAt :: "'a list list \<Rightarrow> slice \<Rightarrow> nat \<Rightarrow> panic + 'a list list \<times> slice" where
  "removeAt store s i =
     bindP (sliceTo s i) (\<lambda>front.
     bindP (sliceFrom s (i + 1)) (\<lambda>back.
       Inr (appendSlice store front (elems store back))))"

text \<open>
  The loop \<open>for i, x := range s { if P(x) { found = true; s = append(s[:i], s[i+1:]...) } }\<close>.
  The range expression is evaluated once (\<open>s0\<close>); each element is read from the array when
  its turn comes; the slice at hand shrinks with every removal.
\<close>

fun removeLoop ::
  "('a \<Rightarrow> bool) \<Rightarrow> slice \<Rightarrow> nat list \<Rightarrow> 'a list list \<times> slice \<times> bool \<Rightarrow> panic + 'a list list \<times> slice \<times> bool" where
  "removeLoop P s0 [] st = Inr st"
| "removeLoop P s0 (i # is) (store, s, found) =
     bindP (index store s0 i) (\<lambda>x.
       if P x then bindP (removeAt store s i) (\<lambda>(store1, s1). removeLoop P s0 is (store1, s1, True))
       else removeLoop P s0 is (store, s, found))"

section \<open>SQL AST merge: the syntax trees\<close>

text \<open>The string as written (\<open>O\<close>) and lower-cased (\<open>L\<close>).\<close>

record CIStr =
  ciO :: string
  ciL :: string

record ast_TableName =
  tnSchema :: CIStr
  tnName :: CIStr

datatype ColumnOptionType =
    ColumnOptionNoOption
  | ColumnOptionPrimaryKey
  | ColumnOptionNotNull
  | ColumnOptionAutoIncrement
  | ColumnOptionDefaultValue
  | ColumnOptionUniqKey
  | ColumnOptionNull
  | ColumnOptionComment

record ColumnOption =
  optTp :: ColumnOptionType
  optExpr :: string

text \<open>\<open>Name\<close> is \<open>col.Name.Name\<close>; \<open>Options\<close> is a slice of the option store.\<close>

record ColumnDef =
  colName :: CIStr
  colOptions :: slice

datatype ConstraintType =
    ConstraintNoConstraint
  | ConstraintPrimaryKey
  | ConstraintKey
  | ConstraintIndex
  | ConstraintUniq
  | ConstraintUniqKey
  | ConstraintUniqIndex
  | ConstraintForeignKey
  | ConstraintFulltext

record Constraint =
  conTp :: ConstraintType
  conName :: string
  conKeys :: "CIStr list"

text \<open>
  \<open>Cols\<close> and \<open>Constraints\<close> are slices of pointers; \<open>Options\<close> and \<open>Partition\<close> are
  copied and never looked into.
\<close>

record CreateTableStmt =
  ctTable :: ast_TableName
  Cols :: slice
  Constraints :: slice
  ctOptions :: nat
  Partition :: nat

datatype AlterTableType =
    AlterTableOption
  | AlterTableAddColumns
  | AlterTableAddConstraint
  | AlterTableDropColumn
  | AlterTableDropPrimaryKey
  | AlterTableDropIndex
  | AlterTableDropForeignKey
  | AlterTableModifyColumn
  | AlterTableChangeColumn
  | AlterTableRenameTable
  | AlterTableAlterColumn
  | AlterTableRenameIndex

text \<open>\<open>NewColumns\<close> and \<open>Constraint\<close> hold pointers (addresses in the heap below).\<close>

record AlterTableSpec =
  spTp :: AlterTableType
  spName :: string
  spConstraint :: nat
  NewTable :: ast_TableName
  NewColumns :: "nat list"
  OldColumnName :: CIStr
  FromKey :: CIStr
  ToKey :: CIStr

record AlterTableStmt =
  Specs :: "AlterTableSpec list"

text \<open>
  The heap: the column definitions and the constraints by address, and the backing
  arrays of the slices of column pointers, of options and of constraint pointers.
\<close>

record heap =
  colDefs :: "ColumnDef list"
  constraints :: "Constraint list"
  colArrs :: "nat list list"
  optArrs :: "ColumnOption list list"
  conArrs :: "nat list list"

section \<open>SQL AST merge: helpers\<close>

definition getAlterTableSpecByTp :: "AlterTableSpec list \<Rightarrow> AlterTableType list \<Rightarrow> AlterTableSpec list" where
  "getAlterTableSpecByTp specs ts =
     concat (map (\<lambda>spec. concat (map (\<lambda>tp. if spTp spec = tp then [spec] else []) ts)) specs)"

definition HasOneInOptions :: "ColumnOption list \<Rightarrow> ColumnOptionType list \<Rightarrow> bool" where
  "HasOneInOptions Options opTp = list_ex (\<lambda>tp. list_ex (\<lambda>op. tp = optTp op) Options) opTp"

text \<open>The columns and the constraints a table shows at the moment.\<close>

definition colsOf :: "heap \<Rightarrow> CreateTableStmt \<Rightarrow> ColumnDef list" where
  "colsOf h stmt = map (\<lambda>a. colDefs h ! a) (elems (colArrs h) (Cols stmt))"

definition constraintsOf :: "heap \<Rightarrow> CreateTableStmt \<Rightarrow> Constraint list" where
  "constraintsOf h stmt = map (\<lambda>a. constraints h ! a) (elems (conArrs h) (Constraints stmt))"

definition optionsOf :: "heap \<Rightarrow> ColumnDef \<Rightarrow> ColumnOption list" where
  "optionsOf h col = elems (optArrs h) (colOptions col)"

text \<open>The lower-cased names of the primary key columns, and whether there is a primary key.\<close>

definition GetPrimaryKey :: "heap \<Rightarrow> CreateTableStmt \<Rightarrow> string list \<times> bool" where
  "GetPrimaryKey h stmt =
     (let pks = filter (\<lambda>constraint. conTp constraint = ConstraintPrimaryKey) (constraintsOf h stmt)
      in if pks \<noteq> [] then (remdups (concat (map (\<lambda>constraint. map ciL (conKeys constraint)) pks)), True)
         else
           (let pkCols = filter (\<lambda>col. HasOneInOptions (optionsOf h col) [ColumnOptionPrimaryKey])
                           (colsOf h stmt)
            in (remdups (map (\<lambda>col. ciL (colName col)) pkCols), pkCols \<noteq> [])))"

definition hasPrimaryKey :: "heap \<Rightarrow> CreateTableStmt \<Rightarrow> bool" where
  "hasPrimaryKey h stmt = snd (GetPrimaryKey h stmt)"

definition tableExistCol :: "heap \<Rightarrow> CreateTableStmt \<Rightarrow> string \<Rightarrow> bool" where
  "tableExistCol h table colName' = list_ex (\<lambda>col. ciO (colName col) = colName') (colsOf h table)"

section \<open>SQL AST merge: mergeAlterToTable\<close>

text \<open>
  Where the function stands after a specification: it panicked, it returned \<open>oldTable\<close>,
  or it goes on with the heap and \<open>newTable\<close> as they are.
\<close>

datatype outcome = Panic panic | ReturnOld heap | Next heap CreateTableStmt

fun forSpecs ::
  "(AlterTableSpec \<Rightarrow> heap \<Rightarrow> CreateTableStmt \<Rightarrow> outcome) \<Rightarrow> AlterTableSpec list \<Rightarrow> outcome \<Rightarrow> outcome" where
  "forSpecs body [] oc = oc"
| "forSpecs body (spec # specs) oc =
     (case oc of Next h newTable \<Rightarrow> forSpecs body specs (body spec h newTable) | _ \<Rightarrow> oc)"

definition renameTable :: "AlterTableSpec \<Rightarrow> heap \<Rightarrow> CreateTableStmt \<Rightarrow> outcome" where
  "renameTable spec h newTable = Next h (newTable\<lparr>ctTable := NewTable spec\<rparr>)"

definition dropColumn :: "AlterTableSpec \<Rightarrow> heap \<Rightarrow> CreateTableStmt \<Rightarrow> outcome" where
  "dropColumn spec h newTable =
     (case removeLoop (\<lambda>a. ciL (colName (colDefs h ! a)) = ciL (OldColumnName spec))
             (Cols newTable) [0..<len (Cols newTable)] (colArrs h, Cols newTable, False) of
        Inl p \<Rightarrow> Panic p
      | Inr (store, cols, colExists) \<Rightarrow>
          if \<not> colExists then ReturnOld (h\<lparr>colArrs := store\<rparr>)
          else Next (h\<lparr>colArrs := store\<rparr>) (newTable\<lparr>Cols := cols\<rparr>))"

text \<open>\<open>spec.NewColumns[0]\<close>\<close>

definition firstNewColumn :: "AlterTableSpec \<Rightarrow> panic + nat" where
  "firstNewColumn spec = (case NewColumns spec of [] \<Rightarrow> Inl (IndexOutOfRange 0 0) | c # _ \<Rightarrow> Inr c)"

fun changeLoop ::
  "heap \<Rightarrow> AlterTableSpec \<Rightarrow> slice \<Rightarrow> nat list \<Rightarrow> nat list list \<times> bool \<Rightarrow> panic + nat list list \<times> bool" where
  "changeLoop h spec s0 [] st = Inr st"
| "changeLoop h spec s0 (i # is) (store, colExists) =
     bindP (index store s0 i) (\<lambda>col.
       if ciL (colName (colDefs h ! col)) = ciL (OldColumnName spec) then
         bindP (firstNewColumn spec) (\<lambda>newCol.
         bindP (setIndex store s0 i newCol) (\<lambda>store1. changeLoop h spec s0 is (store1, True)))
       else changeLoop h spec s0 is (store, colExists))"

definition changeColumn :: "AlterTableSpec \<Rightarrow> heap \<Rightarrow> CreateTableStmt \<Rightarrow> outcome" where
  "changeColumn spec h newTable =
     (case changeLoop h spec (Cols newTable) [0..<len (Cols newTable)] (colArrs h, False) of
        Inl p \<Rightarrow> Panic p
      | Inr (store, colExists) \<Rightarrow>
          if \<not> colExists then ReturnOld (h\<lparr>colArrs := store\<rparr>)
          else Next (h\<lparr>colArrs := store\<rparr>) newTable)"

fun modifyLoop ::
  "heap \<Rightarrow> AlterTableSpec \<Rightarrow> slice \<Rightarrow> nat list \<Rightarrow> nat list list \<times> bool \<Rightarrow> panic + nat list list \<times> bool" where
  "modifyLoop h spec s0 [] st = Inr st"
| "modifyLoop h spec s0 (i # is) (store, colExists) =
     bindP (index store s0 i) (\<lambda>col.
     bindP (firstNewColumn spec) (\<lambda>newCol.
       if ciL (colName (colDefs h ! col)) = ciL (colName (colDefs h ! newCol)) then
         bindP (setIndex store s0 i newCol) (\<lambda>store1. modifyLoop h spec s0 is (store1, True))
       else modifyLoop h spec s0 is (store, colExists)))"

definition modifyColumn :: "AlterTableSpec \<Rightarrow> heap \<Rightarrow> CreateTableStmt \<Rightarrow> outcome" where
  "modifyColumn spec h newTable =
     (case modifyLoop h spec (Cols newTable) [0..<len (Cols newTable)] (colArrs h, False) of
        Inl p \<Rightarrow> Panic p
      | Inr (store, colExists) \<Rightarrow>
          if \<not> colExists then ReturnOld (h\<lparr>colArrs := store\<rparr>)
          else Next (h\<lparr>colArrs := store\<rparr>) newTable)"

text \<open>
  \<open>for i, op := range col.Options { if op.Tp == tp { col.Options = append(...) } }\<close> on the
  column at address \<open>col\<close>.
\<close>

definition removeOptions :: "ColumnOptionType \<Rightarrow> nat \<Rightarrow> heap \<Rightarrow> panic + heap" where
  "removeOptions tp col h =
     (let opts = colOptions (colDefs h ! col) in
      bindP (removeLoop (\<lambda>op. optTp op = tp) opts [0..<len opts] (optArrs h, opts, False))
        (\<lambda>(store, opts1, found).
           Inr (h\<lparr>optArrs := store,
                  colDefs := (colDefs h)[col := (colDefs h ! col)\<lparr>colOptions := opts1\<rparr>]\<rparr>)))"

text \<open>\<open>for i, op := range col.Options { if op.Tp == DefaultValue { col.Options[i] = newCol.Options[0] } }\<close>\<close>

fun replaceDefaultLoop :: "nat \<Rightarrow> nat \<Rightarrow> slice \<Rightarrow> nat list \<Rightarrow> heap \<Rightarrow> panic + heap" where
  "replaceDefaultLoop col newCol s0 [] h = Inr h"
| "replaceDefaultLoop col newCol s0 (i # is) h =
     bindP (index (optArrs h) s0 i) (\<lambda>op.
       if optTp op = ColumnOptionDefaultValue then
         bindP (index (optArrs h) (colOptions (colDefs h ! newCol)) 0) (\<lambda>newOp.
         bindP (setIndex (optArrs h) (colOptions (colDefs h ! col)) i newOp) (\<lambda>store1.
           replaceDefaultLoop col newCol s0 is (h\<lparr>optArrs := store1\<rparr>)))
       else replaceDefaultLoop col newCol s0 is h)"

text \<open>The body of the loop of ALTER COLUMN for a column whose name matches.\<close>

definition alterOneColumn :: "nat \<Rightarrow> nat \<Rightarrow> heap \<Rightarrow> panic + heap" where
  "alterOneColumn col newCol h =
     (if ptr (colOptions (colDefs h ! newCol)) = None then
        removeOptions ColumnOptionDefaultValue col h
      else if HasOneInOptions (optionsOf h (colDefs h ! col)) [ColumnOptionDefaultValue] then
        replaceDefaultLoop col newCol (colOptions (colDefs h ! col))
          [0..<len (colOptions (colDefs h ! col))] h
      else
        (let (store, opts1) = appendSlice (optArrs h) (colOptions (colDefs h ! col))
                                (optionsOf h (colDefs h ! newCol))
         in Inr (h\<lparr>optArrs := store,
                    colDefs := (colDefs h)[col := (colDefs h ! col)\<lparr>colOptions := opts1\<rparr>]\<rparr>)))"

fun alterLoop :: "nat \<Rightarrow> slice \<Rightarrow> nat list \<Rightarrow> heap \<times> bool \<Rightarrow> panic + heap \<times> bool" where
  "alterLoop newCol s0 [] st = Inr st"
| "alterLoop newCol s0 (i # is) (h, colExists) =
     bindP (index (colArrs h) s0 i) (\<lambda>col.
       if ciL (colName (colDefs h ! col)) = ciL (colName (colDefs h ! newCol)) then
         bindP (alterOneColumn col newCol h) (\<lambda>h1. alterLoop newCol s0 is (h1, True))
       else alterLoop newCol s0 is (h, colExists))"

definition alterColumn :: "AlterTableSpec \<Rightarrow> heap \<Rightarrow> CreateTableStmt \<Rightarrow> outcome" where
  "alterColumn spec h newTable =
     (case bindP (firstNewColumn spec) (\<lambda>newCol.
             alterLoop newCol (Cols newTable) [0..<len (Cols newTable)] (h, False)) of
        Inl p \<Rightarrow> Panic p
      | Inr (h1, colExists) \<Rightarrow> if \<not> colExists then ReturnOld h1 else Next h1 newTable)"

fun addColumnsLoop :: "nat list \<Rightarrow> heap \<Rightarrow> CreateTableStmt \<Rightarrow> outcome" where
  "addColumnsLoop [] h newTable = Next h newTable"
| "addColumnsLoop (newCol # newCols) h newTable =
     (let colExist = list_ex (\<lambda>col. ciL (colName col) = ciL (colName (colDefs h ! newCol))) (colsOf h newTable)
      in if colExist then ReturnOld h
         else (let (store, cols) = appendSlice (colArrs h) (Cols newTable) [newCol]
               in addColumnsLoop newCols (h\<lparr>colArrs := store\<rparr>) (newTable\<lparr>Cols := cols\<rparr>)))"

definition addColumns :: "AlterTableSpec \<Rightarrow> heap \<Rightarrow> CreateTableStmt \<Rightarrow> outcome" where
  "addColumns spec h newTable = addColumnsLoop (NewColumns spec) h newTable"

text \<open>\<open>for _, col := range newTable.Cols { ... remove the primary key option ... }\<close>\<close>

fun dropPkOptionsLoop :: "slice \<Rightarrow> nat list \<Rightarrow> heap \<Rightarrow> panic + heap" where
  "dropPkOptionsLoop s0 [] h = Inr h"
| "dropPkOptionsLoop s0 (i # is) h =
     bindP (index (colArrs h) s0 i) (\<lambda>col.
     bindP (removeOptions ColumnOptionPrimaryKey col h) (\<lambda>h1. dropPkOptionsLoop s0 is h1))"

definition dropPrimaryKey :: "AlterTableSpec \<Rightarrow> heap \<Rightarrow> CreateTableStmt \<Rightarrow> outcome" where
  "dropPrimaryKey spec h newTable =
     (if \<not> hasPrimaryKey h newTable then ReturnOld h
      else
        (case removeLoop (\<lambda>a. conTp (constraints h ! a) = ConstraintPrimaryKey)
                (Constraints newTable) [0..<len (Constraints newTable)]
                (conArrs h, Constraints newTable, False) of
           Inl p \<Rightarrow> Panic p
         | Inr (store, cons, found) \<Rightarrow>
             (case dropPkOptionsLoop (Cols newTable) [0..<len (Cols newTable)] (h\<lparr>conArrs := store\<rparr>) of
                Inl p \<Rightarrow> Panic p
              | Inr h1 \<Rightarrow> Next h1 (newTable\<lparr>Constraints := cons\<rparr>))))"

definition dropIndex :: "AlterTableSpec \<Rightarrow> heap \<Rightarrow> CreateTableStmt \<Rightarrow> outcome" where
  "dropIndex spec h newTable =
     (case removeLoop (\<lambda>a. conName (constraints h ! a) = spName spec)
             (Constraints newTable) [0..<len (Constraints newTable)]
             (conArrs h, Constraints newTable, False) of
        Inl p \<Rightarrow> Panic p
      | Inr (store, cons, constraintExists) \<Rightarrow>
          if \<not> constraintExists then ReturnOld (h\<lparr>conArrs := store\<rparr>)
          else Next (h\<lparr>conArrs := store\<rparr>) (newTable\<lparr>Constraints := cons\<rparr>))"

fun renameIndexLoop :: "AlterTableSpec \<Rightarrow> slice \<Rightarrow> nat list \<Rightarrow> heap \<times> bool \<Rightarrow> panic + heap \<times> bool" where
  "renameIndexLoop spec s0 [] st = Inr st"
| "renameIndexLoop spec s0 (i # is) (h, constraintExists) =
     bindP (index (conArrs h) s0 i) (\<lambda>constraint.
       if conName (constraints h ! constraint) = ciO (FromKey spec) then
         renameIndexLoop spec s0 is
           (h\<lparr>constraints := (constraints h)[constraint :=
                 (constraints h ! constraint)\<lparr>conName := ciO (ToKey spec)\<rparr>]\<rparr>, True)
       else renameIndexLoop spec s0 is (h, constraintExists))"

definition renameIndex :: "AlterTableSpec \<Rightarrow> heap \<Rightarrow> CreateTableStmt \<Rightarrow> outcome" where
  "renameIndex spec h newTable =
     (case renameIndexLoop spec (Constraints newTable) [0..<len (Constraints newTable)] (h, False) of
        Inl p \<Rightarrow> Panic p
      | Inr (h1, constraintExists) \<Rightarrow> if \<not> constraintExists then ReturnOld h1 else Next h1 newTable)"

definition addConstraint :: "AlterTableSpec \<Rightarrow> heap \<Rightarrow> CreateTableStmt \<Rightarrow> outcome" where
  "addConstraint spec h newTable =
     (case conTp (constraints h ! spConstraint spec) of
        ConstraintPrimaryKey \<Rightarrow>
          if hasPrimaryKey h newTable then ReturnOld h
          else (let (store, cons) = appendSlice (conArrs h) (Constraints newTable) [spConstraint spec]
                in Next (h\<lparr>conArrs := store\<rparr>) (newTable\<lparr>Constraints := cons\<rparr>))
      | _ \<Rightarrow>
          (let constraintExists =
                 list_ex (\<lambda>constraint. conName constraint = conName (constraints h ! spConstraint spec))
                   (constraintsOf h newTable)
           in if constraintExists then ReturnOld h
              else (let (store, cons) = appendSlice (conArrs h) (Constraints newTable) [spConstraint spec]
                    in Next (h\<lparr>conArrs := store\<rparr>) (newTable\<lparr>Constraints := cons\<rparr>))))"

text \<open>
  The result: the heap after the call, the table returned, whether it is the pointer
  \<open>oldTable\<close>, and the error.
\<close>

record merge_result =
  heapAfter :: heap
  returned :: CreateTableStmt
  isOldTable :: bool
  mergeErr :: "error option"

definition mergeAlterToTable :: "heap \<Rightarrow> CreateTableStmt \<Rightarrow> AlterTableStmt \<Rightarrow> panic + merge_result" where
  "mergeAlterToTable h oldTable alterTable =
     (let newTable = \<lparr>ctTable = ctTable oldTable, Cols = Cols oldTable,
                       Constraints = Constraints oldTable, ctOptions = ctOptions oldTable,
                       Partition = Partition oldTable\<rparr>;
          specsOf = (\<lambda>tp. getAlterTableSpecByTp (Specs alterTable) [tp]);
          oc1 = forSpecs renameTable (specsOf AlterTableRenameTable) (Next h newTable);
          oc2 = forSpecs dropColumn (specsOf AlterTableDropColumn) oc1;
          oc3 = forSpecs changeColumn (specsOf AlterTableChangeColumn) oc2;
          oc4 = forSpecs modifyColumn (specsOf AlterTableModifyColumn) oc3;
          oc5 = forSpecs alterColumn (specsOf AlterTableAlterColumn) oc4;
          oc6 = forSpecs addColumns (specsOf AlterTableAddColumns) oc5;
          oc7 = forSpecs dropPrimaryKey (specsOf AlterTableDropPrimaryKey) oc6;
          oc8 = forSpecs dropIndex (specsOf AlterTableDropIndex) oc7;
          oc9 = forSpecs renameIndex (specsOf AlterTableRenameIndex) oc8;
          oc10 = forSpecs addConstraint (specsOf AlterTableAddConstraint) oc9
      in case oc10 of
           Panic p \<Rightarrow> Inl p
         | ReturnOld h1 \<Rightarrow> Inr \<lparr>heapAfter = h1, returned = oldTable, isOldTable = True, mergeErr = None\<rparr>
         | Next h1 newTable1 \<Rightarrow>
             Inr \<lparr>heapAfter = h1, returned = newTable1, isOldTable = False, mergeErr = None\<rparr>)"

section \<open>SQL AST merge: reading a table, example inputs\<close>

text \<open>The columns of a table as they read: name and option types.\<close>

definition viewCols :: "heap \<Rightarrow> CreateTableStmt \<Rightarrow> (string \<times> ColumnOptionType list) list" where
  "viewCols h stmt = map (\<lambda>col. (ciO (colName col), map optTp (optionsOf h col))) (colsOf h stmt)"

definition viewConstraints :: "heap \<Rightarrow> CreateTableStmt \<Rightarrow> (ConstraintType \<times> string) list" where
  "viewConstraints h stmt = map (\<lambda>c. (conTp c, conName c)) (constraintsOf h stmt)"

definition nilSlice :: slice where
  "nilSlice = \<lparr>ptr = None, off = 0, len = 0, cap = 0\<rparr>"

definition fullSlice :: "nat \<Rightarrow> nat \<Rightarrow> slice" where
  "fullSlice a n = \<lparr>ptr = Some a, off = 0, len = n, cap = n\<rparr>"

definition lowerName :: "string \<Rightarrow> CIStr" where
  "lowerName s = \<lparr>ciO = s, ciL = s\<rparr>"

definition plainColumn :: "string \<Rightarrow> ColumnDef" where
  "plainColumn n = \<lparr>colName = lowerName n, colOptions = nilSlice\<rparr>"

definition noSpec :: AlterTableSpec where
  "noSpec = \<lparr>spTp = AlterTableOption, spName = [], spConstraint = 0,
     NewTable = \<lparr>tnSchema = lowerName [], tnName = lowerName []\<rparr>, NewColumns = [],
     OldColumnName = lowerName [], FromKey = lowerName [], ToKey = lowerName []\<rparr>"

text \<open>\<open>CREATE TABLE t (a INT, b INT)\<close>, with the columns \<open>a2\<close> and \<open>b\<close> of the ALTER statements below.\<close>

definition heapAB :: heap where
  "heapAB = \<lparr>colDefs = [plainColumn ''a'', plainColumn ''b'', plainColumn ''a2'', plainColumn ''b''],
     constraints = [], colArrs = [[0, 1]], optArrs = [], conArrs = []\<rparr>"

definition tableAB :: CreateTableStmt where
  "tableAB = \<lparr>ctTable = \<lparr>tnSchema = lowerName [], tnName = lowerName ''t''\<rparr>,
     Cols = fullSlice 0 2, Constraints = nilSlice, ctOptions = 0, Partition = 0\<rparr>"

text \<open>\<open>ALTER TABLE t DROP COLUMN a, DROP COLUMN z\<close>\<close>

definition alterDropAZ :: AlterTableStmt where
  "alterDropAZ = \<lparr>Specs = [noSpec\<lparr>spTp := AlterTableDropColumn, OldColumnName := lowerName ''a''\<rparr>,
                             noSpec\<lparr>spTp := AlterTableDropColumn, OldColumnName := lowerName ''z''\<rparr>]\<rparr>"

text \<open>\<open>ALTER TABLE t CHANGE a a2 INT, ADD COLUMN b INT\<close>\<close>

definition alterChangeAddB :: AlterTableStmt where
  "alterChangeAddB = \<lparr>Specs = [noSpec\<lparr>spTp := AlterTableChangeColumn, OldColumnName := lowerName ''a'', NewColumns := [2]\<rparr>,
                             noSpec\<lparr>spTp := AlterTableAddColumns, NewColumns := [3]\<rparr>]\<rparr>"

text \<open>\<open>CREATE TABLE t (a INT, a INT)\<close> and \<open>ALTER TABLE t DROP COLUMN a\<close>\<close>

definition heapAA :: heap where
  "heapAA = \<lparr>colDefs = [plainColumn ''a'', plainColumn ''a''],
     constraints = [], colArrs = [[0, 1]], optArrs = [], conArrs = []\<rparr>"

definition alterDropA :: AlterTableStmt where
  "alterDropA = \<lparr>Specs = [noSpec\<lparr>spTp := AlterTableDropColumn, OldColumnName := lowerName ''a''\<rparr>]\<rparr>"

text \<open>
  \<open>CREATE TABLE t (a INT, KEY k1 (a))\<close> and
  \<open>ALTER TABLE t RENAME INDEX k1 TO k2, ADD INDEX k2 (a)\<close>
\<close>

definition heapK :: heap where
  "heapK = \<lparr>colDefs = [plainColumn ''a''],
     constraints = [\<lparr>conTp = ConstraintIndex, conName = ''k1'', conKeys = [lowerName ''a'']\<rparr>,
                    \<lparr>conTp = ConstraintIndex, conName = ''k2'', conKeys = [lowerName ''a'']\<rparr>],
     colArrs = [[0]], optArrs = [], conArrs = [[0]]\<rparr>"

definition tableK :: CreateTableStmt where
  "tableK = \<lparr>ctTable = \<lparr>tnSchema = lowerName [], tnName = lowerName ''t''\<rparr>,
     Cols = fullSlice 0 1, Constraints = fullSlice 0 1, ctOptions = 0, Partition = 0\<rparr>"

definition alterRenameAddK :: AlterTableStmt where
  "alterRenameAddK =
     \<lparr>Specs = [noSpec\<lparr>spTp := AlterTableRenameIndex, FromKey := lowerName ''k1'', ToKey := lowerName ''k2''\<rparr>,
               noSpec\<lparr>spTp := AlterTableAddConstraint, spConstraint := 1\<rparr>]\<rparr>"

section \<open>SQL AST merge: TableChecker\<close>

record ast_ColumnName =
  cnSchema :: CIStr
  cnTable :: CIStr
  cnName :: CIStr

text \<open>
  \<open>schemaTables\<close>: a Go map from schema name to a map from table name to table, as
  association lists; the order of a list is one order in which \<open>range\<close> may visit the map.
\<close>

record TableChecker =
  schemaTables :: "(string \<times> (string \<times> CreateTableStmt) list) list"

text \<open>The inner loop over all the tables of one schema.\<close>

fun tablesLoop :: "heap \<Rightarrow> string \<Rightarrow> (string \<times> CreateTableStmt) list \<Rightarrow> bool \<times> bool \<Rightarrow> bool \<times> bool" where
  "tablesLoop h colName' [] st = st"
| "tablesLoop h colName' ((name, table) # tables) (colExists, colIsAmbiguous) =
     (let exist = tableExistCol h table colName' in
      if exist then tablesLoop h colName' tables (True, if colExists then True else colIsAmbiguous)
      else tablesLoop h colName' tables (colExists, colIsAmbiguous))"

text \<open>The loop over the schemas.\<close>

fun schemasLoop ::
  "heap \<Rightarrow> string \<Rightarrow> string \<Rightarrow> (string \<times> (string \<times> CreateTableStmt) list) list \<Rightarrow> bool \<times> bool \<Rightarrow> bool \<times> bool" where
  "schemasLoop h tableName' colName' [] st = st"
| "schemasLoop h tableName' colName' ((schema, tables) # rest) (colExists, colIsAmbiguous) =
     (let st1 = (case map_of tables tableName' of
                   Some table \<Rightarrow>
                     if tableExistCol h table colName'
                     then (True, if colExists then True else colIsAmbiguous)
                     else (colExists, colIsAmbiguous)
                 | None \<Rightarrow> (colExists, colIsAmbiguous))
      in if tableName' \<noteq> [] then schemasLoop h tableName' colName' rest st1
         else schemasLoop h tableName' colName' rest (tablesLoop h colName' tables st1))"

definition checkColumnByName :: "heap \<Rightarrow> TableChecker \<Rightarrow> ast_ColumnName \<Rightarrow> bool \<times> bool" where
  "checkColumnByName h t colNameStmt =
     (let schemaName = ciO (cnSchema colNameStmt);
          tableName' = ciO (cnTable colNameStmt);
          colName' = ciO (cnName colNameStmt);
          direct = (case map_of (schemaTables t) schemaName of
                      Some tables \<Rightarrow> map_of tables tableName'
                    | None \<Rightarrow> None)
      in case direct of
           Some table \<Rightarrow> (tableExistCol h table colName', False)
         | None \<Rightarrow>
             if schemaName \<noteq> [] then (False, False)
             else schemasLoop h tableName' colName' (schemaTables t) (False, False))"

text \<open>
  How often the scan finds the column: once for each schema whose table of the given name
  has it and, when no table name is given, once more for each table that has it.
\<close>

definition schemaHits :: "heap \<Rightarrow> string \<Rightarrow> string \<Rightarrow> (string \<times> CreateTableStmt) list \<Rightarrow> nat" where
  "schemaHits h tableName' colName' tables =
     (case map_of tables tableName' of
        Some table \<Rightarrow> if tableExistCol h table colName' then 1 else 0
      | None \<Rightarrow> 0)
     + (if tableName' = [] then length (filter (\<lambda>(name, table). tableExistCol h table colName') tables)
        else 0)"

definition scanHits :: "heap \<Rightarrow> TableChecker \<Rightarrow> string \<Rightarrow> string \<Rightarrow> nat" where
  "scanHits h t tableName' colName' =
     sum_list (map (\<lambda>(schema, tables). schemaHits h tableName' colName' tables) (schemaTables t))"

text \<open>Two schemas with a table \<open>t (c INT)\<close> each.\<close>

definition heapC :: heap where
  "heapC = \<lparr>colDefs = [plainColumn ''c'', plainColumn ''c''],
     constraints = [], colArrs = [[0], [1]], optArrs = [], conArrs = []\<rparr>"

definition tableC :: "nat \<Rightarrow> CreateTableStmt" where
  "tableC a = \<lparr>ctTable = \<lparr>tnSchema = lowerName [], tnName = lowerName ''t''\<rparr>,
     Cols = fullSlice a 1, Constraints = nilSlice, ctOptions = 0, Partition = 0\<rparr>"

definition catalogTT :: TableChecker where
  "catalogTT = \<lparr>schemaTables = [(''s1'', [(''t'', tableC 0)]), (''s2'', [(''t'', tableC 1)])]\<rparr>"

definition columnRef :: "string \<Rightarrow> string \<Rightarrow> string \<Rightarrow> ast_ColumnName" where
  "columnRef s t c = \<lparr>cnSchema = lowerName s, cnTable = lowerName t, cnName = lowerName c\<rparr>"

section \<open>Applier: the incremental subscription handler\<close>

record Msg =
  Data :: string
  Reply :: string

text \<open>
  The shared state the handler touches: the bounded channel \<open>a.ai.incrBytesQueue\<close>, whether
  \<open>a.shutdownCh\<close> is closed, the byte counter, the buffer of the merger \<open>incrNMM\<close> and the
  stage.
\<close>

record applier_shared =
  incrBytesQueue :: "string list"
  shutdownCh :: bool
  memory2 :: int
  incrNMM :: string
  Stage :: string

text \<open>
  Modelled from the spec: \<open>common.NatsMsgMerger\<close> is not among the sources. \<open>Handle\<close> takes
  the buffer and a segment and answers with an error, or with the new buffer and whether
  the final segment has arrived; \<open>GetBytes\<close> is the buffer and \<open>Reset\<close> empties it. The
  capacity of the queue is fixed where the queue is made, and \<open>Publish\<close> is the bus.
\<close>

record nats_env =
  queueCap :: nat
  nmmHandle :: "string \<Rightarrow> string \<Rightarrow> error + bool \<times> string"
  Publish :: "string \<Rightarrow> error option"

text \<open>
  The handler stands at its entry, at the \<open>select\<close> with the payload, after the send on
  the queue, or it has returned.
\<close>

datatype pc = Entry | AtSelect string | AfterEnqueue | Returned

datatype event = Published string | Enqueued string | OnError error | Dequeued string | ShutdownClosed

text \<open>
  What can happen next: the handler runs on to its next stop, it takes one of the two
  cases of the \<open>select\<close>, the consumer of the queue receives an element, or the
  applier is shut down. A case of the \<open>select\<close> can be taken only when its channel is
  ready; when none is, the handler waits.
\<close>

datatype action = Proceed | SelectShutdown | SelectSend | ConsumerReceive | CloseShutdown

fun handlerAct :: "nats_env \<Rightarrow> Msg \<Rightarrow> action \<Rightarrow> pc \<times> applier_shared \<Rightarrow> (event list \<times> pc \<times> applier_shared) option" where
  "handlerAct env m Proceed (Entry, sh) =
     (case nmmHandle env (incrNMM sh) (Data m) of
        Inl err \<Rightarrow> Some ([OnError (Wrapf err ''incrNMM.Handle'')], Returned, sh\<lparr>shutdownCh := True\<rparr>)
      | Inr (segmentFinished, buf) \<Rightarrow>
          if \<not> segmentFinished then
            (case Publish env (Reply m) of
               Some err \<Rightarrow> Some ([OnError err], Returned, sh\<lparr>incrNMM := buf, shutdownCh := True\<rparr>)
             | None \<Rightarrow> Some ([Published (Reply m)], Returned, sh\<lparr>incrNMM := buf\<rparr>))
          else Some ([], AtSelect buf, sh\<lparr>incrNMM := buf\<rparr>))"
| "handlerAct env m SelectShutdown (AtSelect bs, sh) =
     (if shutdownCh sh then Some ([], Returned, sh) else None)"
| "handlerAct env m SelectSend (AtSelect bs, sh) =
     (if length (incrBytesQueue sh) < queueCap env
      then Some ([Enqueued bs], AfterEnqueue,
                 sh\<lparr>incrBytesQueue := incrBytesQueue sh @ [bs],
                    memory2 := memory2 sh + int (length bs), incrNMM := []\<rparr>)
      else None)"
| "handlerAct env m Proceed (AfterEnqueue, sh) =
     (case Publish env (Reply m) of
        Some err \<Rightarrow> Some ([OnError err], Returned, sh\<lparr>shutdownCh := True\<rparr>)
      | None \<Rightarrow> Some ([Published (Reply m)], Returned,
                       sh\<lparr>Stage := ''StageWaitingForMasterToSendEvent''\<rparr>))"
| "handlerAct env m ConsumerReceive (p, sh) =
     (case incrBytesQueue sh of
        [] \<Rightarrow> None
      | x # q \<Rightarrow> Some ([Dequeued x], p, sh\<lparr>incrBytesQueue := q\<rparr>))"
| "handlerAct env m CloseShutdown (p, sh) = Some ([ShutdownClosed], p, sh\<lparr>shutdownCh := True\<rparr>)"
| "handlerAct env m a c = None"

text \<open>A run: the actions in order, each one possible where it is taken; the events in order.\<close>

fun runActs :: "nats_env \<Rightarrow> Msg \<Rightarrow> action list \<Rightarrow> pc \<times> applier_shared \<Rightarrow> (event list \<times> pc \<times> applier_shared) option" where
  "runActs env m [] c = Some ([], c)"
| "runActs env m (a # as) c =
     (case handlerAct env m a c of
        None \<Rightarrow> None
      | Some (evs, c1) \<Rightarrow>
          (case runActs env m as c1 of
             None \<Rightarrow> None
           | Some (evs1, c2) \<Rightarrow> Some (evs @ evs1, c2)))"

text \<open>Every acknowledgement on \<open>r\<close> in the trace comes after the payload was enqueued.\<close>

fun ackAfterEnqueue :: "string \<Rightarrow> string \<Rightarrow> bool \<Rightarrow> event list \<Rightarrow> bool" where
  "ackAfterEnqueue r bs enqueued [] = True"
| "ackAfterEnqueue r bs enqueued (e # es) =
     (if e = Published r then enqueued \<and> ackAfterEnqueue r bs enqueued es
      else ackAfterEnqueue r bs (enqueued \<or> e = Enqueued bs) es)"

text \<open>What the stops of the handler mean for a final segment with payload \<open>bs\<close>.\<close>

definition pcInv :: "nats_env \<Rightarrow> Msg \<Rightarrow> string \<Rightarrow> applier_shared \<Rightarrow> pc \<Rightarrow> bool \<Rightarrow> bool" where
  "pcInv env m bs sh p enqueued =
     (case p of
        Entry \<Rightarrow> nmmHandle env (incrNMM sh) (Data m) = Inr (True, bs)
      | AtSelect b \<Rightarrow> b = bs
      | AfterEnqueue \<Rightarrow> enqueued
      | Returned \<Rightarrow> True)"

definition exampleNats :: "nat \<Rightarrow> nats_env" where
  "exampleNats n = \<lparr>queueCap = n,
     nmmHandle = (\<lambda>buf seg. case seg of [] \<Rightarrow> Inl (DbError ''empty'')
                              | c # payload \<Rightarrow> Inr (c = CHR ''F'', buf @ payload)),
     Publish = (\<lambda>r. None)\<rparr>"

definition exampleShared :: "string list \<Rightarrow> applier_shared" where
  "exampleShared q = \<lparr>incrBytesQueue = q, shutdownCh = False, memory2 = 0, incrNMM = [], Stage = []\<rparr>"

section \<open>Properties of the inspector\<close>

lemma scanGrant_flags:
  "foundAll (scanGrant s g) = (foundAll g \<or> Contains s ''GRANT ALL PRIVILEGES ON'')"
  "foundSuper (scanGrant s g) = (foundSuper g \<or> Contains s ''SUPER'')"
  "foundReplicationClient (scanGrant s g) = (foundReplicationClient g \<or> Contains s ''REPLICATION CLIENT'')"
  "foundReplicationSlave (scanGrant s g) = (foundReplicationSlave g \<or> Contains s ''REPLICATION SLAVE'')"
  "foundDBAll (scanGrant s g) = (foundDBAll g \<or> Contains s ''SELECT'')"
  by (simp_all add: scanGrant_def Let_def StringContainsAll_def)

lemma scanRow_flags:
  "foundAll (scanRow cells g) = (foundAll g \<or> list_ex (\<lambda>s. Contains s ''GRANT ALL PRIVILEGES ON'') cells)"
  "foundSuper (scanRow cells g) = (foundSuper g \<or> list_ex (\<lambda>s. Contains s ''SUPER'') cells)"
  "foundReplicationClient (scanRow cells g) = (foundReplicationClient g \<or> list_ex (\<lambda>s. Contains s ''REPLICATION CLIENT'') cells)"
  "foundReplicationSlave (scanRow cells g) = (foundReplicationSlave g \<or> list_ex (\<lambda>s. Contains s ''REPLICATION SLAVE'') cells)"
  "foundDBAll (scanRow cells g) = (foundDBAll g \<or> list_ex (\<lambda>s. Contains s ''SELECT'') cells)"
  by (induction cells arbitrary: g; simp add: scanGrant_flags del: Contains.simps; blast)+

lemma scanRows_flags:
  "foundAll (scanRows rows g) = (foundAll g \<or> grantsContain rows ''GRANT ALL PRIVILEGES ON'')"
  "foundSuper (scanRows rows g) = (foundSuper g \<or> grantsContain rows ''SUPER'')"
  "foundReplicationClient (scanRows rows g) = (foundReplicationClient g \<or> grantsContain rows ''REPLICATION CLIENT'')"
  "foundReplicationSlave (scanRows rows g) = (foundReplicationSlave g \<or> grantsContain rows ''REPLICATION SLAVE'')"
  "foundDBAll (scanRows rows g) = (foundDBAll g \<or> grantsContain rows ''SELECT'')"
  by (induction rows arbitrary: g; simp add: scanRow_flags grantsContain_def del: Contains.simps; blast)+

text \<open>
  C7. validateGrants succeeds without sending a query when SkipPrivilegeCheck is set.
  Otherwise, when \<open>show grants\<close> answers, it succeeds if and only if the grants contain
  \<open>GRANT ALL PRIVILEGES ON\<close>, or \<open>SUPER\<close> with \<open>REPLICATION SLAVE\<close> and \<open>SELECT\<close>, or
  \<open>REPLICATION CLIENT\<close> with \<open>REPLICATION SLAVE\<close> and \<open>SELECT\<close>; if they do not, the
  error is the insufficient-privileges error.
\<close>

theorem validateGrants_spec:
  "(SkipPrivilegeCheck cfg \<longrightarrow> validateGrants cfg db = (None, []))
   \<and> (\<not> SkipPrivilegeCheck cfg \<and> showGrants db = Inr rows \<longrightarrow>
        (fst (validateGrants cfg db) = None \<longleftrightarrow> sufficientGrants rows)
        \<and> (\<not> sufficientGrants rows \<longrightarrow> fst (validateGrants cfg db) = Some InsufficientPrivileges))"
  by (auto simp: validateGrants_def Let_def scanRows_flags noGrants_def sufficientGrants_def)

theorem validateGrants_spec_witness:
  "fst (validateGrants \<lparr>SkipPrivilegeCheck = False, BinlogRowImage = ''''\<rparr>
     (exampleDb [[''GRANT SUPER, REPLICATION SLAVE ON *.* TO u''], [''GRANT SELECT ON *.* TO u'']] [] None)) = None
   \<and> fst (validateGrants \<lparr>SkipPrivilegeCheck = False, BinlogRowImage = ''''\<rparr>
     (exampleDb [[''GRANT SUPER, REPLICATION SLAVE ON *.* TO u'']] [] None)) = Some InsufficientPrivileges
   \<and> validateGrants \<lparr>SkipPrivilegeCheck = True, BinlogRowImage = ''''\<rparr> (exampleDb [] [] None) = (None, [])"
  using validateGrants_spec [of "\<lparr>SkipPrivilegeCheck = False, BinlogRowImage = ''''\<rparr>"
      "exampleDb [[''GRANT SUPER, REPLICATION SLAVE ON *.* TO u''], [''GRANT SELECT ON *.* TO u'']] [] None"
      "[[''GRANT SUPER, REPLICATION SLAVE ON *.* TO u''], [''GRANT SELECT ON *.* TO u'']]"]
    validateGrants_spec [of "\<lparr>SkipPrivilegeCheck = False, BinlogRowImage = ''''\<rparr>"
      "exampleDb [[''GRANT SUPER, REPLICATION SLAVE ON *.* TO u'']] [] None"
      "[[''GRANT SUPER, REPLICATION SLAVE ON *.* TO u'']]"]
    validateGrants_spec [of "\<lparr>SkipPrivilegeCheck = True, BinlogRowImage = ''''\<rparr>" "exampleDb [] [] None" "[]"]
  by (simp add: exampleDb_def sufficientGrants_def grantsContain_def)

lemma upperByte_idem: "upperByte (upperByte c) = upperByte c"
proof -
  have "\<not> (97 \<le> (n - 32) mod 256 \<and> (n - 32) mod 256 \<le> 122)" if "97 \<le> n" "n \<le> 122" for n :: nat
    using that by auto
  then show ?thesis by (auto simp: upperByte_def)
qed

lemma ToUpper_idem: "ToUpper (ToUpper s) = ToUpper s"
  by (simp add: ToUpper_def upperByte_idem)

lemma ToUpper_FULL: "ToUpper ''FULL'' = ''FULL''"
  by code_simp

text \<open>
  C8. When the query for \<open>@@log_bin, @@binlog_format\<close> answers, validateBinlogs returns an
  error exactly when binary logging is off or the format is not \<open>ROW\<close>. On success the
  row image is \<open>FULL\<close> when \<open>@@binlog_row_image\<close> cannot be read, the upper-cased answer
  otherwise, and in both cases it is a fixed point of upper-casing.
\<close>

theorem validateBinlogs_spec:
  assumes "logBinAndFormat db = Inr (hasBinaryLogs, binlogFormat)"
  shows "(snd (validateBinlogs cfg db) \<noteq> None \<longleftrightarrow> \<not> hasBinaryLogs \<or> binlogFormat \<noteq> ''ROW'')
     \<and> (snd (validateBinlogs cfg db) = None \<longrightarrow>
          (\<forall>err. rowImage db = Inl err \<longrightarrow> BinlogRowImage (fst (validateBinlogs cfg db)) = ''FULL'')
        \<and> (\<forall>img. rowImage db = Inr img \<longrightarrow> BinlogRowImage (fst (validateBinlogs cfg db)) = ToUpper img)
        \<and> ToUpper (BinlogRowImage (fst (validateBinlogs cfg db))) = BinlogRowImage (fst (validateBinlogs cfg db)))"
  using assms
  by (auto simp: validateBinlogs_def Let_def ToUpper_idem ToUpper_FULL split: sum.splits)

theorem validateBinlogs_spec_witness:
  "snd (validateBinlogs \<lparr>SkipPrivilegeCheck = False, BinlogRowImage = ''''\<rparr> (exampleDb [] [] None)) = None
   \<and> BinlogRowImage (fst (validateBinlogs \<lparr>SkipPrivilegeCheck = False, BinlogRowImage = ''''\<rparr> (exampleDb [] [] None)))
       = ''FULL''"
proof -
  have u: "ToUpper ''full'' = ''FULL''" by code_simp
  have h: "logBinAndFormat (exampleDb [] [] None) = Inr (True, ''ROW'')" by (simp add: exampleDb_def)
  have r: "rowImage (exampleDb [] [] None) = Inr ''full''" by (simp add: exampleDb_def)
  from validateBinlogs_spec [OF h, of "\<lparr>SkipPrivilegeCheck = False, BinlogRowImage = ''''\<rparr>"] r u
  show ?thesis by simp
qed


lemma columnTypesLoop_fst:
  "fst (columnTypesLoop cols (v, lg)) =
     (v \<and> list_all (\<lambda>c. Type c \<noteq> FloatColumnType \<and> Type c \<noteq> JSONColumnType) cols)"
  by (induction cols arbitrary: v lg) (auto split: ColumnType.splits)

lemma checkUniqueKey_fst: "fst (checkUniqueKey cfg uk lg) = keyIsValid cfg uk"
proof -
  obtain v1 lg1 where c: "columnTypesLoop (Columns (ukColumns uk)) (True, lg @ [(Debug, ''a unique key'')]) = (v1, lg1)"
    by (cases "columnTypesLoop (Columns (ukColumns uk)) (True, lg @ [(Debug, ''a unique key'')])")
  from columnTypesLoop_fst [of "Columns (ukColumns uk)" True "lg @ [(Debug, ''a unique key'')]"] c
  have v1: "v1 = list_all (\<lambda>c. Type c \<noteq> FloatColumnType \<and> Type c \<noteq> JSONColumnType) (Columns (ukColumns uk))"
    by simp
  show ?thesis
    unfolding checkUniqueKey_def keyIsValid_def c Let_def using v1 by auto
qed

lemma uniqueKeysLoop_fst:
  "fst (uniqueKeysLoop cfg act uks (cur, lg)) =
     (case filter IsPrimary (filter (keyIsValid cfg) (typedKeys act uks)) of
        p # _ \<Rightarrow> Some p
      | [] \<Rightarrow> (case cur of
                 Some k \<Rightarrow> Some k
               | None \<Rightarrow> (case filter (keyIsValid cfg) (typedKeys act uks) of
                            [] \<Rightarrow> None | u # _ \<Rightarrow> Some u)))"
proof (induction uks arbitrary: cur lg)
  case Nil
  then show ?case by (simp add: typedKeys_def split: option.splits)
next
  case (Cons uk0 uks)
  let ?uk = "uk0\<lparr>ukColumns := act (ukColumns uk0)\<rparr>"
  obtain v lg1 where c: "checkUniqueKey cfg ?uk lg = (v, lg1)"
    by (cases "checkUniqueKey cfg ?uk lg")
  with checkUniqueKey_fst [of cfg ?uk lg] have v: "v = keyIsValid cfg ?uk" by simp
  have t: "typedKeys act (uk0 # uks) = ?uk # typedKeys act uks" by (simp add: typedKeys_def)
  show ?case
    using Cons.IH c v unfolding t
    by (cases cur) (auto simp: Let_def split: list.splits option.splits)
qed

text \<open>
  C2. When the table exists, its candidates and columns are read, no key was chosen
  before and the row filter parses, ValidateOriginalTable succeeds and leaves in
  \<open>UseUniqueKey\<close> the key of the selection rule: a candidate is accepted exactly when it
  has no FLOAT or JSON column, no nullable column, and is the primary key or the row
  image is FULL; the accepted primary key is chosen if there is one, otherwise the first
  accepted candidate, and \<open>None\<close> when no candidate is accepted.
\<close>

theorem ValidateOriginalTable_key:
  assumes "validateTable db = None"
    and "candidateUniqueKeys db = (uks, None)"
    and "tableColumns db = (cols, None)"
    and "UseUniqueKey table = None"
    and "NewWhereCtx db (Where table)
           (table\<lparr>OriginalTableColumns := cols,
                  UseUniqueKey := specChosenKey cfg (typedKeys (ApplyColumnTypes db) uks)\<rparr>) = None"
  shows "fst (ValidateOriginalTable cfg db table) =
           table\<lparr>OriginalTableColumns := cols,
                 UseUniqueKey := specChosenKey cfg (typedKeys (ApplyColumnTypes db) uks)\<rparr>
         \<and> fst (snd (ValidateOriginalTable cfg db table)) = None"
proof -
  let ?lg = "[(Info, ''ValidateOriginalTable'')] @ [(Debug, ''table has unique keys'')]"
  obtain k lg1 where l: "uniqueKeysLoop cfg (ApplyColumnTypes db) uks (None, ?lg) = (k, lg1)"
    by (cases "uniqueKeysLoop cfg (ApplyColumnTypes db) uks (None, ?lg)")
  from uniqueKeysLoop_fst [of cfg "ApplyColumnTypes db" uks None ?lg] l
  have k: "k = specChosenKey cfg (typedKeys (ApplyColumnTypes db) uks)"
    by (simp add: specChosenKey_def Let_def split: list.splits)
  show ?thesis
    using assms l k by (simp add: ValidateOriginalTable_def Let_def)
qed

theorem ValidateOriginalTable_key_witness:
  "UseUniqueKey (fst (ValidateOriginalTable fullCfg
      (exampleDb [] [exampleKey ''a'' FloatColumnType, exampleKey ''b'' MediumIntColumnType,
                     exampleKey ''PRIMARY'' MediumIntColumnType] None) exampleTable))
     = Some (exampleKey ''PRIMARY'' MediumIntColumnType)
   \<and> UseUniqueKey (fst (ValidateOriginalTable fullCfg
      (exampleDb [] [exampleKey ''a'' FloatColumnType, exampleKey ''b'' MediumIntColumnType] None) exampleTable))
     = Some (exampleKey ''b'' MediumIntColumnType)
   \<and> ValidateOriginalTable fullCfg (exampleDb [] [exampleKey ''a'' FloatColumnType] None) exampleTable
     = (exampleTable, None,
        [(Info, ''ValidateOriginalTable''), (Debug, ''table has unique keys''), (Debug, ''a unique key''),
         (Warn, ''Will not use the unique key due to FLOAT data type''),
         (Warn, ''No valid unique key found. It will be slow on large table.'')])"
proof -
  let ?d1 = "exampleDb [] [exampleKey ''a'' FloatColumnType, exampleKey ''b'' MediumIntColumnType,
                     exampleKey ''PRIMARY'' MediumIntColumnType] None"
  let ?d2 = "exampleDb [] [exampleKey ''a'' FloatColumnType, exampleKey ''b'' MediumIntColumnType] None"
  have 1: "validateTable (exampleDb r u w) = None" for r u w
    by (simp add: validateTable_def exampleDb_def)
  have 2: "candidateUniqueKeys (exampleDb r u w) = (u, None)" for r u w
    by (simp add: exampleDb_def)
  have 3: "tableColumns (exampleDb r u w) = (None, None)" for r u w
    by (simp add: exampleDb_def)
  have 4: "UseUniqueKey exampleTable = None" by (simp add: exampleTable_def)
  have 5: "NewWhereCtx (exampleDb r u None) x y = None" for r u x y
    by (simp add: exampleDb_def)
  have a: "ApplyColumnTypes (exampleDb r u w) = (\<lambda>c. c)" for r u w
    by (simp add: exampleDb_def)
  note k1 = ValidateOriginalTable_key [where cfg = fullCfg and table = exampleTable, OF 1 2 3 4 5]
  have e1: "specChosenKey fullCfg (typedKeys (\<lambda>c. c) [exampleKey ''a'' FloatColumnType, exampleKey ''b'' MediumIntColumnType,
                     exampleKey ''PRIMARY'' MediumIntColumnType]) = Some (exampleKey ''PRIMARY'' MediumIntColumnType)"
    by (simp add: specChosenKey_def typedKeys_def keyIsValid_def exampleKey_def IsPrimary_def fullCfg_def)
  have e2: "specChosenKey fullCfg (typedKeys (\<lambda>c. c) [exampleKey ''a'' FloatColumnType, exampleKey ''b'' MediumIntColumnType])
       = Some (exampleKey ''b'' MediumIntColumnType)"
    by (simp add: specChosenKey_def typedKeys_def keyIsValid_def exampleKey_def IsPrimary_def fullCfg_def)
  have e3: "ValidateOriginalTable fullCfg (exampleDb [] [exampleKey ''a'' FloatColumnType] None) exampleTable
     = (exampleTable, None,
        [(Info, ''ValidateOriginalTable''), (Debug, ''table has unique keys''), (Debug, ''a unique key''),
         (Warn, ''Will not use the unique key due to FLOAT data type''),
         (Warn, ''No valid unique key found. It will be slow on large table.'')])"
    by (simp add: ValidateOriginalTable_def validateTable_def exampleDb_def exampleKey_def exampleTable_def
        checkUniqueKey_def IsPrimary_def fullCfg_def Let_def)
  show ?thesis
    using k1 [of "[]" "[exampleKey ''a'' FloatColumnType, exampleKey ''b'' MediumIntColumnType,
                     exampleKey ''PRIMARY'' MediumIntColumnType]"]
      k1 [of "[]" "[exampleKey ''a'' FloatColumnType, exampleKey ''b'' MediumIntColumnType]"] e1 e2 e3
    by (simp add: a)
qed

text \<open>
  C5. A row filter that does not parse: ValidateOriginalTable logs at error level and
  returns the parse error, after the key has been chosen.
\<close>

theorem ValidateOriginalTable_where_error:
  "ValidateOriginalTable fullCfg
      (exampleDb [] [exampleKey ''PRIMARY'' MediumIntColumnType] (Some (WhereParseError ''syntax''))) exampleTable
   = (exampleTable\<lparr>UseUniqueKey := Some (exampleKey ''PRIMARY'' MediumIntColumnType)\<rparr>,
      Some (WhereParseError ''syntax''),
      [(Info, ''ValidateOriginalTable''), (Debug, ''table has unique keys''), (Debug, ''a unique key''),
       (Info, ''chosen unique key''), (Error, ''Error parsing where'')])"
  by (simp add: ValidateOriginalTable_def validateTable_def exampleDb_def exampleKey_def exampleTable_def
        checkUniqueKey_def IsPrimary_def fullCfg_def Let_def)


section \<open>Properties of the applier\<close>

lemma joinWith_snoc:
  "xs \<noteq> [] \<Longrightarrow> joinWith sep (xs @ [x]) = joinWith sep xs @ sep @ x"
  by (induction sep xs rule: joinWith.induct) auto

lemma joinWith_Cons:
  "xs \<noteq> [] \<Longrightarrow> joinWith sep (x # xs) = x @ sep @ joinWith sep xs"
  by (cases xs) auto

lemma cellsLoop_join:
  "cellsLoop env cells firstCol buf =
     buf @ (if cells = [] then [] else (if firstCol then [] else '','') @ joinWith '','' (map (renderCell env) cells))"
proof (induction cells arbitrary: firstCol buf)
  case Nil
  then show ?case by simp
next
  case (Cons c cells)
  show ?case
    by (cases c) (auto simp: Cons.IH renderCell_def Let_def joinWith_Cons)
qed

lemma cellsLoop_row:
  "cellsLoop env row True (b @ ''('') @ '')'' = b @ renderRow env row"
  by (simp add: cellsLoop_join renderRow_def)

lemma rowsLoop_batches_aux:
  assumes "h0 \<noteq> []"
    and "buf = (if batch = [] then [] else stmtOf h0 batch)"
  shows "rowsLoop env lim (h0 @ ''('') rows buf st =
           execAll env st (map (stmtOf h0) (batches lim h0 (map (renderRow env) rows) batch))"
  using assms(2)
proof (induction rows arbitrary: buf batch st)
  case Nil
  then show ?case by simp
next
  case (Cons row rows)
  let ?r = "renderRow env row"
  have b2: "cellsLoop env row True (if length buf = 0 then buf @ (h0 @ ''('') else buf @ '',('') @ '')''
              = stmtOf h0 (batch @ [?r])"
  proof (cases "batch = []")
    case True
    with Cons.prems have "buf = []" by simp
    then show ?thesis
      using True cellsLoop_row [of env row h0] by (simp add: stmtOf_def)
  next
    case False
    with Cons.prems have buf: "buf = stmtOf h0 batch" by simp
    with assms(1) have "length buf \<noteq> 0" by (simp add: stmtOf_def)
    moreover have "cellsLoop env row True ((buf @ '','') @ ''('') @ '')'' = (buf @ '','') @ ?r"
      by (rule cellsLoop_row)
    ultimately show ?thesis
      using False buf assms(1) by (simp add: stmtOf_def joinWith_snoc)
  qed
  have step: "rowsLoop env lim (h0 @ ''('') (row # rows) buf st =
      (if rows = [] \<or> lim \<le> length (stmtOf h0 (batch @ [?r]))
       then (case execQuery env st (stmtOf h0 (batch @ [?r])) of
               (st1, Some err) \<Rightarrow> (st1, Some err)
             | (st1, None) \<Rightarrow> rowsLoop env lim (h0 @ ''('') rows [] st1)
       else rowsLoop env lim (h0 @ ''('') rows (stmtOf h0 (batch @ [?r])) st)"
    by (simp only: rowsLoop.simps Let_def b2)
  show ?case
  proof (cases "rows = [] \<or> lim \<le> length (stmtOf h0 (batch @ [?r]))")
    case True
    then show ?thesis
      unfolding step using Cons.IH [of "[]" "[]"]
      by (auto split: prod.splits option.splits)
  next
    case False
    then show ?thesis
      unfolding step using Cons.IH [of "stmtOf h0 (batch @ [?r])" "batch @ [?r]"]
      by auto
  qed
qed

lemma concat_batches:
  "rs \<noteq> [] \<Longrightarrow> concat (batches lim h0 rs batch) = batch @ rs"
proof (induction rs arbitrary: batch)
  case Nil
  then show ?case by simp
next
  case (Cons r rs)
  then show ?case by (cases "rs = []") auto
qed

lemma batches_nonempty: "[] \<notin> set (batches lim h0 rs batch)"
  by (induction rs arbitrary: batch) auto

lemma batches_full:
  "g \<in> set (butlast (batches lim h0 rs batch)) \<Longrightarrow> lim \<le> length (stmtOf h0 g)"
proof (induction rs arbitrary: batch)
  case Nil
  then show ?case by simp
next
  case (Cons r rs)
  then show ?case
    by (cases "rs = []") (auto split: if_splits)
qed

lemma batches_not_before:
  "batch = [] \<or> length (stmtOf h0 batch) < lim \<Longrightarrow> g \<in> set (batches lim h0 rs batch) \<Longrightarrow>
     butlast g = [] \<or> length (stmtOf h0 (butlast g)) < lim"
proof (induction rs arbitrary: batch)
  case Nil
  then show ?case by simp
next
  case (Cons r rs)
  show ?case
  proof (cases "rs = [] \<or> lim \<le> length (stmtOf h0 (batch @ [r]))")
    case True
    with Cons.prems(2) have "g = batch @ [r] \<or> g \<in> set (batches lim h0 rs [])" by auto
    then show ?thesis
    proof
      assume "g = batch @ [r]"
      with Cons.prems(1) show ?thesis by auto
    next
      assume "g \<in> set (batches lim h0 rs [])"
      with Cons.IH [of "[]"] show ?thesis by simp
    qed
  next
    case False
    with Cons.prems(2) have "g \<in> set (batches lim h0 rs (batch @ [r]))" by auto
    moreover from False have "length (stmtOf h0 (batch @ [r])) < lim" by simp
    ultimately show ?thesis using Cons.IH [of "batch @ [r]"] by blast
  qed
qed

lemma execAll_append:
  "execAll env st (xs @ ys) =
     (case execAll env st xs of (s1, Some e) \<Rightarrow> (s1, Some e) | (s1, None) \<Rightarrow> execAll env s1 ys)"
  by (induction xs arbitrary: st) (auto split: prod.splits option.splits)

lemma queriesLoop_execAll:
  "queriesLoop env qs st = execAll env st (filter (\<lambda>q. q \<noteq> []) qs)"
  by (induction qs arbitrary: st) (auto split: prod.splits option.splits)

lemma replaceHeader_spec: "replaceHeader env entry = specHeader env entry @ ''(''"
  by (simp add: replaceHeader_def specHeader_def)

lemma specHeader_nonempty: "specHeader env entry \<noteq> []"
  by (simp add: specHeader_def)

lemma rowsLoop_execAll:
  "rowsLoop env lim (replaceHeader env entry) (ValuesX entry) [] st =
     execAll env st (map (stmtOf (specHeader env entry)) (rowBatches env lim entry))"
  unfolding replaceHeader_spec rowBatches_def
  by (rule rowsLoop_batches_aux [OF specHeader_nonempty]) simp

lemma txBody_execAll:
  "txBody env lim entry st =
     (case txExec env (txSent st) sessionQuery of
        Some err \<Rightarrow> (st\<lparr>txSent := txSent st @ [sessionQuery]\<rparr>, Some err)
      | None \<Rightarrow> execAll env (st\<lparr>txSent := txSent st @ [sessionQuery]\<rparr>) (allStatements env lim entry))"
  unfolding txBody_def Let_def allStatements_def execAll_append queriesLoop_execAll rowsLoop_execAll
    sessionQuery_def
  by (simp split: option.splits prod.splits)

lemma deferredCommit_fields:
  "txBegun (deferredCommit env n r)"
  "ret (deferredCommit env n r) = snd r"
  "txSent (final (deferredCommit env n r)) = txSent (fst r)"
  "txCommitted (deferredCommit env n r) = (txCommit env (txSent (fst r)) = None)"
  "rowsReplayed (deferredCommit env n r) = n"
  by (auto simp: deferredCommit_def logTo_def split: option.splits)

lemma execQuery_cases:
  assumes "txExec env (txSent st) q = Some err"
  shows "if IgnoreError env err
         then snd (execQuery env st q) = None
              \<and> logged (fst (execQuery env st q)) =
                  logged st @ (Debug, ''ApplyEventQueries. exec'')
                    # (if IgnoreExistsError env err then [] else [(Warn, ''ApplyEventQueries. ignore error'')])
         else snd (execQuery env st q) =
                Some (Wrapf err (''tx.Exec. queryStart '' @ StrLim env q 10 @ '' seq''))"
  using assms by (simp add: execQuery_def Let_def logTo_def)

lemma warnCount_simps [simp]:
  "warnCount [] = 0"
  "warnCount (xs @ ys) = warnCount xs + warnCount ys"
  "warnCount ((l, msg) # xs) = (if l = Warn then 1 else 0) + warnCount xs"
  by (simp_all add: warnCount_def)

lemma execQuery_spec:
  assumes "execQuery env st q = (st1, r)"
  shows "txSent st1 = fst (specSend env (txSent st) [q])
       \<and> r = snd (snd (specSend env (txSent st) [q]))
       \<and> warnCount (logged st1) = warnCount (logged st) + length (fst (snd (specSend env (txSent st) [q])))"
  using assms
  by (auto simp: execQuery_def Let_def logTo_def split: option.splits if_splits)

lemma specSend_Cons:
  "specSend env sent (q # qs) =
     (if snd (snd (specSend env sent [q])) = None
      then (fst (specSend env (sent @ [q]) qs),
            fst (snd (specSend env sent [q])) @ fst (snd (specSend env (sent @ [q]) qs)),
            snd (snd (specSend env (sent @ [q]) qs)))
      else specSend env sent [q])"
  by (cases "specSend env (sent @ [q]) qs") (auto split: option.splits)

lemma specSend_single_sent: "fst (specSend env sent [q]) = sent @ [q]"
  by (auto split: option.splits)

lemma execAll_specSend:
  assumes "execAll env st qs = (st1, r)"
  shows "txSent st1 = fst (specSend env (txSent st) qs)
       \<and> r = snd (snd (specSend env (txSent st) qs))
       \<and> warnCount (logged st1) = warnCount (logged st) + length (fst (snd (specSend env (txSent st) qs)))"
  using assms
proof (induction qs arbitrary: st)
  case Nil
  then show ?case by simp
next
  case (Cons q qs)
  obtain s2 r2 where e: "execQuery env st q = (s2, r2)" by (cases "execQuery env st q")
  define S1 where "S1 = specSend env (txSent st) [q]"
  define S2 where "S2 = specSend env (txSent st @ [q]) qs"
  have c: "specSend env (txSent st) (q # qs) =
      (if snd (snd S1) = None then (fst S2, fst (snd S1) @ fst (snd S2), snd (snd S2)) else S1)"
    unfolding S1_def S2_def by (rule specSend_Cons)
  from execQuery_spec [OF e]
  have q1: "txSent s2 = fst S1" and q2: "r2 = snd (snd S1)"
    and q3: "warnCount (logged s2) = warnCount (logged st) + length (fst (snd S1))"
    unfolding S1_def by blast+
  have s2: "txSent s2 = txSent st @ [q]"
    using q1 specSend_single_sent [of env "txSent st" q] unfolding S1_def by simp
  show ?case
  proof (cases r2)
    case None
    with e Cons.prems have "execAll env s2 qs = (st1, r)" by simp
    from Cons.IH [OF this]
    have "txSent st1 = fst S2" "r = snd (snd S2)"
      "warnCount (logged st1) = warnCount (logged s2) + length (fst (snd S2))"
      unfolding S2_def s2 by blast+
    moreover from q2 None have "snd (snd S1) = None" by simp
    ultimately show ?thesis using q3 unfolding c by simp
  next
    case (Some err)
    with e Cons.prems have "st1 = s2" "r = r2" by simp_all
    moreover from q2 Some have "snd (snd S1) = Some err" by simp
    ultimately show ?thesis using q1 q3 Some unfolding c by simp
  qed
qed

lemma specSend_append:
  "specSend env sent (xs @ ys) =
     (if snd (snd (specSend env sent xs)) = None
      then (fst (specSend env (fst (specSend env sent xs)) ys),
            fst (snd (specSend env sent xs)) @ fst (snd (specSend env (fst (specSend env sent xs)) ys)),
            snd (snd (specSend env (fst (specSend env sent xs)) ys)))
      else specSend env sent xs)"
proof (induction xs arbitrary: sent)
  case Nil
  then show ?case by simp
next
  case (Cons x xs)
  show ?case
    by (cases "txExec env sent x") (simp_all add: Cons.IH)
qed

lemma specSend_None_sent:
  "snd (snd (specSend env sent qs)) = None \<Longrightarrow> fst (specSend env sent qs) = sent @ qs"
proof (induction qs arbitrary: sent)
  case Nil
  then show ?case by simp
next
  case (Cons q qs)
  then show ?case
    by (cases "txExec env sent q") (auto split: if_splits)
qed

lemma specSend_all_ignored:
  "(\<And>s q err. txExec env s q = Some err \<Longrightarrow> IgnoreError env err) \<Longrightarrow>
     snd (snd (specSend env sent qs)) = None"
proof (induction qs arbitrary: sent)
  case Nil
  then show ?case by simp
next
  case (Cons q qs)
  then show ?case
    by (cases "txExec env sent q") auto
qed

lemma specSend_stop:
  assumes "snd (snd (specSend env sent pre)) = None"
    and "txExec env (sent @ pre) q = Some err" and "\<not> IgnoreError env err"
  shows "fst (specSend env sent (pre @ q # post)) = sent @ pre @ [q]"
    and "snd (snd (specSend env sent (pre @ q # post)))
           = Some (Wrapf err (''tx.Exec. queryStart '' @ StrLim env q 10 @ '' seq''))"
  using assms specSend_None_sent [OF assms(1)]
  by (simp_all add: specSend_append)

lemma dbsLoop_spec:
  "snd (dbsLoop env msg q is st) = firstError (map (\<lambda>i. dbsExec env i q) is)
   \<and> txSent (fst (dbsLoop env msg q is st)) = txSent st
   \<and> warnCount (logged (fst (dbsLoop env msg q is st))) = warnCount (logged st)"
  by (induction "is" arbitrary: st) (auto simp: Let_def logTo_def split: option.splits)

lemma deferredCommit_warn:
  "warnCount (logged (final (deferredCommit env n r))) = warnCount (logged (fst r))"
  by (auto simp: deferredCommit_def logTo_def split: option.splits)

lemma allStatements_ddl:
  "allStatements env lim entry =
     ddlStatements entry @ map (stmtOf (specHeader env entry)) (rowBatches env lim entry)"
  by (simp add: allStatements_def ddlStatements_def)

text \<open>The whole call, case by case.\<close>

lemma ApplyEventQueriesLim_result:
  "case preTxError env entry of
     Some err \<Rightarrow>
       ret (ApplyEventQueriesLim env lim entry) = Some err
       \<and> \<not> txBegun (ApplyEventQueriesLim env lim entry)
       \<and> \<not> txCommitted (ApplyEventQueriesLim env lim entry)
       \<and> txSent (final (ApplyEventQueriesLim env lim entry)) = []
   | None \<Rightarrow>
       txBegun (ApplyEventQueriesLim env lim entry)
       \<and> txCommitted (ApplyEventQueriesLim env lim entry)
           = (txCommit env (txSent (final (ApplyEventQueriesLim env lim entry))) = None)
       \<and> (case txExec env [] sessionQuery of
            Some err \<Rightarrow>
              ret (ApplyEventQueriesLim env lim entry) = Some err
              \<and> txSent (final (ApplyEventQueriesLim env lim entry)) = [sessionQuery]
              \<and> warnCount (logged (final (ApplyEventQueriesLim env lim entry))) = 0
          | None \<Rightarrow>
              txSent (final (ApplyEventQueriesLim env lim entry))
                = fst (specSend env [sessionQuery] (allStatements env lim entry))
              \<and> ret (ApplyEventQueriesLim env lim entry)
                = snd (snd (specSend env [sessionQuery] (allStatements env lim entry)))
              \<and> warnCount (logged (final (ApplyEventQueriesLim env lim entry)))
                = length (fst (snd (specSend env [sessionQuery] (allStatements env lim entry)))))"
proof -
  let ?st0 = "\<lparr>dbsSent = [], txSent = [], logged = [(Debug, ''ApplyEventQueries'')]\<rparr>"
  let ?a = "if SystemVariablesStatement entry \<noteq> []
            then dbsLoop env ''exec sysvar query'' (SystemVariablesStatement entry) [0..<nDbs env] ?st0
            else (?st0, None)"
  obtain st1 r1 where a: "?a = (st1, r1)" by (cases ?a)
  have a1: "r1 = dbsError env (SystemVariablesStatement entry)" "txSent st1 = []"
      "warnCount (logged st1) = 0"
    using a dbsLoop_spec [of env "''exec sysvar query''" "SystemVariablesStatement entry" "[0..<nDbs env]" ?st0]
    by (auto simp: dbsError_def split: if_splits)
  let ?b = "if SqlMode entry \<noteq> []
            then dbsLoop env ''exec sqlmode query'' (SqlMode entry) [0..<nDbs env] st1
            else (st1, None)"
  obtain st2 r2 where b: "?b = (st2, r2)" by (cases ?b)
  have b1: "r2 = dbsError env (SqlMode entry)" "txSent st2 = []" "warnCount (logged st2) = 0"
    using b a1 dbsLoop_spec [of env "''exec sqlmode query''" "SqlMode entry" "[0..<nDbs env]" st1]
    by (auto simp: dbsError_def split: if_splits)
  have unf: "ApplyEventQueriesLim env lim entry =
      (case r1 of Some err \<Rightarrow> noTx st1 err
       | None \<Rightarrow> (case r2 of Some err \<Rightarrow> noTx st2 err
                  | None \<Rightarrow> (case BeginTx env of Some err \<Rightarrow> noTx st2 err
                             | None \<Rightarrow> deferredCommit env (length (ValuesX entry)) (txBody env lim entry st2))))"
    using a b unfolding ApplyEventQueriesLim_def Let_def by (simp split: option.splits)
  show ?thesis
  proof (cases "preTxError env entry")
    case (Some err)
    then show ?thesis
      using a1 b1 unfolding unf
      by (auto simp: preTxError_def noTx_def split: option.splits)
  next
    case None
    then have n: "r1 = None" "r2 = None" "BeginTx env = None"
      using a1 b1 by (auto simp: preTxError_def split: option.splits)
    have r: "ApplyEventQueriesLim env lim entry
               = deferredCommit env (length (ValuesX entry)) (txBody env lim entry st2)"
      unfolding unf by (simp add: n)
    show ?thesis
    proof (cases "txExec env [] sessionQuery")
      case (Some err)
      then show ?thesis
        using None b1 by (simp add: r deferredCommit_fields deferredCommit_warn txBody_execAll)
    next
      case sn: None
      let ?st = "st2\<lparr>txSent := [sessionQuery]\<rparr>"
      obtain s3 r3 where e: "execAll env ?st (allStatements env lim entry) = (s3, r3)"
        by (cases "execAll env ?st (allStatements env lim entry)")
      have t: "txBody env lim entry st2 = (s3, r3)"
        using e sn b1 by (simp add: txBody_execAll)
      from execAll_specSend [OF e] b1
      show ?thesis
        using None sn by (simp add: r t deferredCommit_fields deferredCommit_warn)
    qed
  qed
qed


lemma dbsLoop_sent:
  "dbsSent (fst (dbsLoop env msg q is st)) = dbsSent st @ sentOnConns env q is"
  by (induction "is" arbitrary: st) (auto simp: Let_def logTo_def split: option.splits)

lemma execQuery_dbsSent: "dbsSent (fst (execQuery env st q)) = dbsSent st"
  by (simp add: execQuery_def Let_def logTo_def split: option.splits)

lemma execAll_dbsSent: "dbsSent (fst (execAll env st qs)) = dbsSent st"
proof (induction qs arbitrary: st)
  case Nil
  then show ?case by simp
next
  case (Cons q qs)
  obtain s2 r2 where e: "execQuery env st q = (s2, r2)" by (cases "execQuery env st q")
  with execQuery_dbsSent [of env st q] have "dbsSent s2 = dbsSent st" by simp
  with Cons.IH [of s2] e show ?case by (cases r2) simp_all
qed

lemma txBody_dbsSent: "dbsSent (fst (txBody env lim entry st)) = dbsSent st"
  by (simp add: txBody_execAll execAll_dbsSent split: option.splits)

lemma deferredCommit_effects:
  "dbsSent (final (deferredCommit env n r)) = dbsSent (fst r)"
  "onErrors (deferredCommit env n r)
     = (case txCommit env (txSent (fst r)) of Some err \<Rightarrow> [err] | None \<Rightarrow> [])"
  by (auto simp: deferredCommit_def logTo_def split: option.splits)

lemma ApplyEventQueriesLim_effects:
  "dbsSent (final (ApplyEventQueriesLim env lim entry)) = specDbsSent env entry
   \<and> onErrors (ApplyEventQueriesLim env lim entry)
       = (if txBegun (ApplyEventQueriesLim env lim entry)
          then (case txCommit env (txSent (final (ApplyEventQueriesLim env lim entry))) of
                  Some err \<Rightarrow> [err] | None \<Rightarrow> [])
          else [])
   \<and> rowsReplayed (ApplyEventQueriesLim env lim entry)
       = (if txBegun (ApplyEventQueriesLim env lim entry) then length (ValuesX entry) else 0)"
proof -
  let ?st0 = "\<lparr>dbsSent = [], txSent = [], logged = [(Debug, ''ApplyEventQueries'')]\<rparr>"
  let ?a = "if SystemVariablesStatement entry \<noteq> []
            then dbsLoop env ''exec sysvar query'' (SystemVariablesStatement entry) [0..<nDbs env] ?st0
            else (?st0, None)"
  obtain st1 r1 where a: "?a = (st1, r1)" by (cases ?a)
  have a1: "r1 = dbsError env (SystemVariablesStatement entry)"
      "dbsSent st1 = connsSent env (SystemVariablesStatement entry)"
    using a dbsLoop_spec [of env "''exec sysvar query''" "SystemVariablesStatement entry" "[0..<nDbs env]" ?st0]
      dbsLoop_sent [of env "''exec sysvar query''" "SystemVariablesStatement entry" "[0..<nDbs env]" ?st0]
    by (auto simp: dbsError_def connsSent_def split: if_splits)
  let ?b = "if SqlMode entry \<noteq> []
            then dbsLoop env ''exec sqlmode query'' (SqlMode entry) [0..<nDbs env] st1
            else (st1, None)"
  obtain st2 r2 where b: "?b = (st2, r2)" by (cases ?b)
  have b1: "r2 = dbsError env (SqlMode entry)"
      "dbsSent st2 = dbsSent st1 @ connsSent env (SqlMode entry)"
    using b dbsLoop_spec [of env "''exec sqlmode query''" "SqlMode entry" "[0..<nDbs env]" st1]
      dbsLoop_sent [of env "''exec sqlmode query''" "SqlMode entry" "[0..<nDbs env]" st1]
    by (auto simp: dbsError_def connsSent_def split: if_splits)
  have unf: "ApplyEventQueriesLim env lim entry =
      (case r1 of Some err \<Rightarrow> noTx st1 err
       | None \<Rightarrow> (case r2 of Some err \<Rightarrow> noTx st2 err
                  | None \<Rightarrow> (case BeginTx env of Some err \<Rightarrow> noTx st2 err
                             | None \<Rightarrow> deferredCommit env (length (ValuesX entry)) (txBody env lim entry st2))))"
    using a b unfolding ApplyEventQueriesLim_def Let_def by (simp split: option.splits)
  show ?thesis
    unfolding unf using a1 b1
    by (auto simp: specDbsSent_def noTx_def deferredCommit_fields deferredCommit_effects txBody_dbsSent
        split: option.splits)
qed

text \<open>
  C3, as amended. In execQuery, through which the statements of the entry and the row
  statements go, an error that IgnoreError accepts is swallowed, with a warning unless
  IgnoreExistsError accepts it too, and the next statement is sent; any other error ends
  the sending at that statement and is returned wrapped. The statements on the worker
  connections, the opening of the transaction and the session statement do not consult
  IgnoreError: their error is returned as it is, for the first two before any
  transaction exists. Once the transaction is begun the deferred Commit is called on
  whatever was sent, whether or not an error is returned: nothing is rolled back; an
  error of the Commit goes to \<open>a.onError\<close>.
\<close>

theorem ApplyEventQueries_error_discipline:
  "(\<forall>st q err. txExec env (txSent st) q = Some err \<longrightarrow>
      (if IgnoreError env err
       then snd (execQuery env st q) = None
            \<and> logged (fst (execQuery env st q)) =
                logged st @ (Debug, ''ApplyEventQueries. exec'')
                  # (if IgnoreExistsError env err then [] else [(Warn, ''ApplyEventQueries. ignore error'')])
       else snd (execQuery env st q) =
              Some (Wrapf err (''tx.Exec. queryStart '' @ StrLim env q 10 @ '' seq''))))
   \<and> (case preTxError env entry of
        Some err \<Rightarrow>
          ret (ApplyEventQueries env entry) = Some err
          \<and> \<not> txBegun (ApplyEventQueries env entry)
          \<and> \<not> txCommitted (ApplyEventQueries env entry)
          \<and> txSent (final (ApplyEventQueries env entry)) = []
      | None \<Rightarrow>
          txBegun (ApplyEventQueries env entry)
          \<and> txCommitted (ApplyEventQueries env entry)
              = (txCommit env (txSent (final (ApplyEventQueries env entry))) = None)
          \<and> (case txExec env [] sessionQuery of
               Some err \<Rightarrow>
                 ret (ApplyEventQueries env entry) = Some err
                 \<and> txSent (final (ApplyEventQueries env entry)) = [sessionQuery]
                 \<and> warnCount (logged (final (ApplyEventQueries env entry))) = 0
             | None \<Rightarrow>
                 txSent (final (ApplyEventQueries env entry))
                   = fst (specSend env [sessionQuery] (allStatements env BufSizeLimit entry))
                 \<and> ret (ApplyEventQueries env entry)
                   = snd (snd (specSend env [sessionQuery] (allStatements env BufSizeLimit entry)))
                 \<and> warnCount (logged (final (ApplyEventQueries env entry)))
                   = length (fst (snd (specSend env [sessionQuery] (allStatements env BufSizeLimit entry))))))
   \<and> (\<forall>pre q post err.
        preTxError env entry = None \<and> txExec env [] sessionQuery = None
        \<and> allStatements env BufSizeLimit entry = pre @ q # post
        \<and> snd (snd (specSend env [sessionQuery] pre)) = None
        \<and> txExec env (sessionQuery # pre) q = Some err \<and> \<not> IgnoreError env err \<longrightarrow>
        ret (ApplyEventQueries env entry)
          = Some (Wrapf err (''tx.Exec. queryStart '' @ StrLim env q 10 @ '' seq''))
        \<and> txSent (final (ApplyEventQueries env entry)) = sessionQuery # pre @ [q]
        \<and> txCommitted (ApplyEventQueries env entry) = (txCommit env (sessionQuery # pre @ [q]) = None))
   \<and> (preTxError env entry = None \<and> txExec env [] sessionQuery = None
        \<and> (\<forall>s q err. txExec env s q = Some err \<longrightarrow> IgnoreError env err) \<longrightarrow>
        ret (ApplyEventQueries env entry) = None
        \<and> txSent (final (ApplyEventQueries env entry)) = sessionQuery # allStatements env BufSizeLimit entry)
   \<and> dbsSent (final (ApplyEventQueries env entry)) = specDbsSent env entry
   \<and> onErrors (ApplyEventQueries env entry)
       = (if txBegun (ApplyEventQueries env entry)
          then (case txCommit env (txSent (final (ApplyEventQueries env entry))) of
                  Some err \<Rightarrow> [err] | None \<Rightarrow> [])
          else [])
   \<and> rowsReplayed (ApplyEventQueries env entry)
       = (if txBegun (ApplyEventQueries env entry) then length (ValuesX entry) else 0)"
proof (intro conjI allI impI)
  fix st :: ap_state and q err
  assume "txExec env (txSent st) q = Some err"
  then show "if IgnoreError env err
       then snd (execQuery env st q) = None
            \<and> logged (fst (execQuery env st q)) =
                logged st @ (Debug, ''ApplyEventQueries. exec'')
                  # (if IgnoreExistsError env err then [] else [(Warn, ''ApplyEventQueries. ignore error'')])
       else snd (execQuery env st q) =
              Some (Wrapf err (''tx.Exec. queryStart '' @ StrLim env q 10 @ '' seq''))"
    by (rule execQuery_cases)
next
  show "case preTxError env entry of
        Some err \<Rightarrow>
          ret (ApplyEventQueries env entry) = Some err
          \<and> \<not> txBegun (ApplyEventQueries env entry)
          \<and> \<not> txCommitted (ApplyEventQueries env entry)
          \<and> txSent (final (ApplyEventQueries env entry)) = []
      | None \<Rightarrow>
          txBegun (ApplyEventQueries env entry)
          \<and> txCommitted (ApplyEventQueries env entry)
              = (txCommit env (txSent (final (ApplyEventQueries env entry))) = None)
          \<and> (case txExec env [] sessionQuery of
               Some err \<Rightarrow>
                 ret (ApplyEventQueries env entry) = Some err
                 \<and> txSent (final (ApplyEventQueries env entry)) = [sessionQuery]
                 \<and> warnCount (logged (final (ApplyEventQueries env entry))) = 0
             | None \<Rightarrow>
                 txSent (final (ApplyEventQueries env entry))
                   = fst (specSend env [sessionQuery] (allStatements env BufSizeLimit entry))
                 \<and> ret (ApplyEventQueries env entry)
                   = snd (snd (specSend env [sessionQuery] (allStatements env BufSizeLimit entry)))
                 \<and> warnCount (logged (final (ApplyEventQueries env entry)))
                   = length (fst (snd (specSend env [sessionQuery] (allStatements env BufSizeLimit entry)))))"
    unfolding ApplyEventQueries_def by (rule ApplyEventQueriesLim_result)
next
  fix pre q post err
  assume h: "preTxError env entry = None \<and> txExec env [] sessionQuery = None
        \<and> allStatements env BufSizeLimit entry = pre @ q # post
        \<and> snd (snd (specSend env [sessionQuery] pre)) = None
        \<and> txExec env (sessionQuery # pre) q = Some err \<and> \<not> IgnoreError env err"
  from ApplyEventQueriesLim_result [where env = env and entry = entry and lim = BufSizeLimit] h
  have r: "txSent (final (ApplyEventQueries env entry))
             = fst (specSend env [sessionQuery] (pre @ q # post))"
    "ret (ApplyEventQueries env entry) = snd (snd (specSend env [sessionQuery] (pre @ q # post)))"
    "txCommitted (ApplyEventQueries env entry)
       = (txCommit env (txSent (final (ApplyEventQueries env entry))) = None)"
    by (simp_all add: ApplyEventQueries_def)
  from h have p: "snd (snd (specSend env [sessionQuery] pre)) = None"
    "txExec env ([sessionQuery] @ pre) q = Some err" "\<not> IgnoreError env err"
    by simp_all
  note s = specSend_stop [OF p, of post]
  show "ret (ApplyEventQueries env entry)
          = Some (Wrapf err (''tx.Exec. queryStart '' @ StrLim env q 10 @ '' seq''))"
    using r s by simp
  show t: "txSent (final (ApplyEventQueries env entry)) = sessionQuery # pre @ [q]"
    using r s by simp
  show "txCommitted (ApplyEventQueries env entry) = (txCommit env (sessionQuery # pre @ [q]) = None)"
    using r(3) t by simp
next
  assume h: "preTxError env entry = None \<and> txExec env [] sessionQuery = None
        \<and> (\<forall>s q err. txExec env s q = Some err \<longrightarrow> IgnoreError env err)"
  then have n: "snd (snd (specSend env [sessionQuery] (allStatements env BufSizeLimit entry))) = None"
    using specSend_all_ignored [of env "[sessionQuery]" "allStatements env BufSizeLimit entry"] by blast
  from ApplyEventQueriesLim_result [where env = env and entry = entry and lim = BufSizeLimit] h
  have r: "txSent (final (ApplyEventQueries env entry))
             = fst (specSend env [sessionQuery] (allStatements env BufSizeLimit entry))"
    "ret (ApplyEventQueries env entry)
       = snd (snd (specSend env [sessionQuery] (allStatements env BufSizeLimit entry)))"
    by (simp_all add: ApplyEventQueries_def)
  show "ret (ApplyEventQueries env entry) = None" using r n by simp
  show "txSent (final (ApplyEventQueries env entry)) = sessionQuery # allStatements env BufSizeLimit entry"
    using r specSend_None_sent [OF n] by simp
next
  from ApplyEventQueriesLim_effects [where env = env and entry = entry and lim = BufSizeLimit]
  show "dbsSent (final (ApplyEventQueries env entry)) = specDbsSent env entry"
    and "onErrors (ApplyEventQueries env entry)
       = (if txBegun (ApplyEventQueries env entry)
          then (case txCommit env (txSent (final (ApplyEventQueries env entry))) of
                  Some err \<Rightarrow> [err] | None \<Rightarrow> [])
          else [])"
    and "rowsReplayed (ApplyEventQueries env entry)
       = (if txBegun (ApplyEventQueries env entry) then length (ValuesX entry) else 0)"
    by (simp_all add: ApplyEventQueries_def)
qed

text \<open>
  A statement fails with an error that is not ignored: the error is returned, and the
  transaction is committed with the statement sent before it.
\<close>

theorem ApplyEventQueries_commits_after_error:
  "ret (ApplyEventQueries (exampleEnv (failsOn ''create table t'' (DbError ''boom'')) (\<lambda>e. False) (\<lambda>e. False))
          (exampleEntry []))
     = Some (Wrapf (DbError ''boom'') ''tx.Exec. queryStart create tab seq'')
   \<and> txCommitted (ApplyEventQueries (exampleEnv (failsOn ''create table t'' (DbError ''boom'')) (\<lambda>e. False) (\<lambda>e. False))
          (exampleEntry []))
   \<and> txSent (final (ApplyEventQueries (exampleEnv (failsOn ''create table t'' (DbError ''boom'')) (\<lambda>e. False) (\<lambda>e. False))
          (exampleEntry [])))
     = [''SET @@session.foreign_key_checks = 0'', ''create database d'', ''create table t'']"
  by (simp add: ApplyEventQueries_def ApplyEventQueriesLim_def Let_def exampleEnv_def exampleEntry_def
      failsOn_def txBody_def deferredCommit_def execQuery_def logTo_def)

lemma example_allStatements:
  "allStatements (exampleEnv f i x) BufSizeLimit (exampleEntry [[Some ''1'', None]])
     = [''create database d'', ''create table t'',
        ''replace into `s`.`t` values ('' @ [CHR 0x27] @ ''1'' @ [CHR 0x27] @ '',NULL)'']"
  by (simp add: allStatements_def rowBatches_def exampleEnv_def exampleEntry_def specHeader_def
      renderRow_def renderCell_def stmtOf_def BufSizeLimit_def)

lemma example_preTxError: "preTxError (exampleEnv f i x) (exampleEntry rows) = None"
  by (simp add: preTxError_def dbsError_def exampleEnv_def exampleEntry_def)

theorem ApplyEventQueries_error_discipline_witness:
  "ret (ApplyEventQueries (exampleEnv (failsOn ''create table t'' (DbError ''exists'')) (\<lambda>e. True) (\<lambda>e. False))
          (exampleEntry [[Some ''1'', None]])) = None
   \<and> txSent (final (ApplyEventQueries (exampleEnv (failsOn ''create table t'' (DbError ''exists'')) (\<lambda>e. True) (\<lambda>e. False))
          (exampleEntry [[Some ''1'', None]])))
     = [''SET @@session.foreign_key_checks = 0'', ''create database d'', ''create table t'',
        ''replace into `s`.`t` values ('' @ [CHR 0x27] @ ''1'' @ [CHR 0x27] @ '',NULL)'']
   \<and> warnCount (logged (final (ApplyEventQueries
          (exampleEnv (failsOn ''create table t'' (DbError ''exists'')) (\<lambda>e. True) (\<lambda>e. False))
          (exampleEntry [[Some ''1'', None]])))) = 1
   \<and> ret (ApplyEventQueries (exampleEnv (failsOn ''create table t'' (DbError ''boom'')) (\<lambda>e. False) (\<lambda>e. False))
          (exampleEntry [[Some ''1'', None]]))
     = Some (Wrapf (DbError ''boom'') ''tx.Exec. queryStart create tab seq'')
   \<and> txSent (final (ApplyEventQueries (exampleEnv (failsOn ''create table t'' (DbError ''boom'')) (\<lambda>e. False) (\<lambda>e. False))
          (exampleEntry [[Some ''1'', None]])))
     = [''SET @@session.foreign_key_checks = 0'', ''create database d'', ''create table t'']
   \<and> txCommitted (ApplyEventQueries (exampleEnv (failsOn ''create table t'' (DbError ''boom'')) (\<lambda>e. False) (\<lambda>e. False))
          (exampleEntry [[Some ''1'', None]]))
   \<and> ret (ApplyEventQueries
          ((exampleEnv (\<lambda>q. None) (\<lambda>e. False) (\<lambda>e. False))\<lparr>BeginTx := Some (DbError ''down'')\<rparr>)
          (exampleEntry [])) = Some (DbError ''down'')
   \<and> \<not> txBegun (ApplyEventQueries
          ((exampleEnv (\<lambda>q. None) (\<lambda>e. False) (\<lambda>e. False))\<lparr>BeginTx := Some (DbError ''down'')\<rparr>)
          (exampleEntry []))"
proof -
  let ?e1 = "exampleEnv (failsOn ''create table t'' (DbError ''exists'')) (\<lambda>e. True) (\<lambda>e. False)"
  let ?e2 = "exampleEnv (failsOn ''create table t'' (DbError ''boom'')) (\<lambda>e. False) (\<lambda>e. False)"
  let ?e3 = "(exampleEnv (\<lambda>q. None) (\<lambda>e. False) (\<lambda>e. False))\<lparr>BeginTx := Some (DbError ''down'')\<rparr>"
  let ?entry = "exampleEntry [[Some ''1'', None]]"
  let ?row = "''replace into `s`.`t` values ('' @ [CHR 0x27] @ ''1'' @ [CHR 0x27] @ '',NULL)''"
  have s1: "txExec ?e1 [] sessionQuery = None"
    by (simp add: exampleEnv_def failsOn_def sessionQuery_def)
  have sp1: "specSend ?e1 [sessionQuery] (allStatements ?e1 BufSizeLimit ?entry)
      = ([sessionQuery, ''create database d'', ''create table t'', ?row], [''create table t''], None)"
    by (simp add: example_allStatements) (simp add: exampleEnv_def failsOn_def)
  note B = ApplyEventQueries_error_discipline [THEN conjunct2, THEN conjunct1]
  note C = ApplyEventQueries_error_discipline [THEN conjunct2, THEN conjunct2, THEN conjunct1]
  from B [of ?e1 ?entry] s1
  have a: "ret (ApplyEventQueries ?e1 ?entry) = None"
    "txSent (final (ApplyEventQueries ?e1 ?entry))
       = [sessionQuery, ''create database d'', ''create table t'', ?row]"
    "warnCount (logged (final (ApplyEventQueries ?e1 ?entry))) = 1"
    by (simp_all add: example_preTxError sp1)
  have s2: "txExec ?e2 [] sessionQuery = None"
    by (simp add: exampleEnv_def failsOn_def sessionQuery_def)
  have h2: "preTxError ?e2 ?entry = None \<and> txExec ?e2 [] sessionQuery = None
        \<and> allStatements ?e2 BufSizeLimit ?entry = [''create database d''] @ ''create table t'' # [?row]
        \<and> snd (snd (specSend ?e2 [sessionQuery] [''create database d''])) = None
        \<and> txExec ?e2 (sessionQuery # [''create database d'']) ''create table t'' = Some (DbError ''boom'')
        \<and> \<not> IgnoreError ?e2 (DbError ''boom'')"
    using s2 by (simp add: example_preTxError example_allStatements) (simp add: exampleEnv_def failsOn_def)
  have c2: "txCommit ?e2 s = None" "StrLim ?e2 ''create table t'' 10 = ''create tab''" for s
    by (simp_all add: exampleEnv_def)
  from C [of ?e2 ?entry] h2
  have b: "ret (ApplyEventQueries ?e2 ?entry)
          = Some (Wrapf (DbError ''boom'') (''tx.Exec. queryStart '' @ StrLim ?e2 ''create table t'' 10 @ '' seq''))
        \<and> txSent (final (ApplyEventQueries ?e2 ?entry)) = sessionQuery # [''create database d''] @ [''create table t'']
        \<and> txCommitted (ApplyEventQueries ?e2 ?entry)
            = (txCommit ?e2 (sessionQuery # [''create database d''] @ [''create table t'']) = None)"
    by blast
  have p3: "preTxError ?e3 (exampleEntry []) = Some (DbError ''down'')"
    by (simp add: preTxError_def dbsError_def exampleEnv_def exampleEntry_def)
  from B [of ?e3 "exampleEntry []"] p3
  have c: "ret (ApplyEventQueries ?e3 (exampleEntry [])) = Some (DbError ''down'')"
    "\<not> txBegun (ApplyEventQueries ?e3 (exampleEntry []))"
    by simp_all
  from a b c show ?thesis by (simp add: sessionQuery_def c2)
qed

text \<open>
  C4. When nothing fails before the rows, ApplyEventQueries sends in the transaction the
  session statement, the statements of the entry and then one statement per batch of
  rows, up to the first error that is not ignored: the header
  \<open>replace into schema.table values\<close> and the rendered rows of the batch separated by
  commas, with the limit of 1 MiB. The batches partition the rows in order; no batch is
  empty; a batch without its last row is below the limit, and every batch but the last
  reaches the limit: a statement is flushed exactly when the buffer reaches the limit or
  the last row has been added. No rows, no row statement. A nil cell is \<open>NULL\<close>, any
  other cell is escaped and single-quoted.
\<close>

theorem ApplyEventQueries_row_batches:
  "(preTxError env entry = None \<and> txExec env [] sessionQuery = None \<longrightarrow>
      txSent (final (ApplyEventQueriesLim env lim entry))
        = fst (specSend env [sessionQuery]
                 (ddlStatements entry @ map (stmtOf (specHeader env entry)) (rowBatches env lim entry)))
      \<and> ret (ApplyEventQueriesLim env lim entry)
        = snd (snd (specSend env [sessionQuery]
                 (ddlStatements entry @ map (stmtOf (specHeader env entry)) (rowBatches env lim entry))))
      \<and> txSent (final (ApplyEventQueries env entry))
        = fst (specSend env [sessionQuery]
                 (ddlStatements entry @ map (stmtOf (specHeader env entry)) (rowBatches env BufSizeLimit entry)))
      \<and> ret (ApplyEventQueries env entry)
        = snd (snd (specSend env [sessionQuery]
                 (ddlStatements entry @ map (stmtOf (specHeader env entry)) (rowBatches env BufSizeLimit entry)))))
   \<and> (preTxError env entry = None \<and> txExec env [] sessionQuery = None
        \<and> ret (ApplyEventQueries env entry) = None \<longrightarrow>
      txSent (final (ApplyEventQueries env entry))
        = sessionQuery # ddlStatements entry
            @ map (stmtOf (specHeader env entry)) (rowBatches env BufSizeLimit entry))
   \<and> concat (rowBatches env lim entry) = map (renderRow env) (ValuesX entry)
   \<and> (\<forall>g \<in> set (rowBatches env lim entry).
        g \<noteq> [] \<and> (butlast g = [] \<or> length (stmtOf (specHeader env entry) (butlast g)) < lim))
   \<and> (\<forall>g \<in> set (butlast (rowBatches env lim entry)). lim \<le> length (stmtOf (specHeader env entry) g))
   \<and> (ValuesX entry = [] \<longrightarrow> rowBatches env lim entry = [])
   \<and> renderCell env None = ''NULL''
   \<and> renderCell env (Some bs) = [CHR 0x27] @ EscapeValue env bs @ [CHR 0x27]
   \<and> BufSizeLimit = 1048576"
proof (intro conjI ballI impI)
  assume h: "preTxError env entry = None \<and> txExec env [] sessionQuery = None"
  from ApplyEventQueriesLim_result [where env = env and entry = entry and lim = lim] h
  show "txSent (final (ApplyEventQueriesLim env lim entry))
        = fst (specSend env [sessionQuery]
                 (ddlStatements entry @ map (stmtOf (specHeader env entry)) (rowBatches env lim entry)))"
    and "ret (ApplyEventQueriesLim env lim entry)
        = snd (snd (specSend env [sessionQuery]
                 (ddlStatements entry @ map (stmtOf (specHeader env entry)) (rowBatches env lim entry))))"
    by (simp_all add: allStatements_ddl)
  from ApplyEventQueriesLim_result [where env = env and entry = entry and lim = BufSizeLimit] h
  show "txSent (final (ApplyEventQueries env entry))
        = fst (specSend env [sessionQuery]
                 (ddlStatements entry @ map (stmtOf (specHeader env entry)) (rowBatches env BufSizeLimit entry)))"
    and "ret (ApplyEventQueries env entry)
        = snd (snd (specSend env [sessionQuery]
                 (ddlStatements entry @ map (stmtOf (specHeader env entry)) (rowBatches env BufSizeLimit entry))))"
    by (simp_all add: allStatements_ddl ApplyEventQueries_def)
next
  assume h: "preTxError env entry = None \<and> txExec env [] sessionQuery = None
        \<and> ret (ApplyEventQueries env entry) = None"
  from ApplyEventQueriesLim_result [where env = env and entry = entry and lim = BufSizeLimit] h
  have r: "txSent (final (ApplyEventQueries env entry))
        = fst (specSend env [sessionQuery] (allStatements env BufSizeLimit entry))"
    "snd (snd (specSend env [sessionQuery] (allStatements env BufSizeLimit entry))) = None"
    by (simp_all add: ApplyEventQueries_def)
  show "txSent (final (ApplyEventQueries env entry))
        = sessionQuery # ddlStatements entry
            @ map (stmtOf (specHeader env entry)) (rowBatches env BufSizeLimit entry)"
    using r(1) specSend_None_sent [OF r(2)] by (simp add: allStatements_ddl)
next
  show "concat (rowBatches env lim entry) = map (renderRow env) (ValuesX entry)"
    by (cases "ValuesX entry = []") (simp_all add: rowBatches_def concat_batches)
  show "g \<noteq> []" if "g \<in> set (rowBatches env lim entry)" for g
    using that batches_nonempty unfolding rowBatches_def by metis
  show "butlast g = [] \<or> length (stmtOf (specHeader env entry) (butlast g)) < lim"
    if "g \<in> set (rowBatches env lim entry)" for g
    using that batches_not_before [of "[]"] unfolding rowBatches_def by blast
  show "lim \<le> length (stmtOf (specHeader env entry) g)"
    if "g \<in> set (butlast (rowBatches env lim entry))" for g
    using that batches_full unfolding rowBatches_def by blast
  show "rowBatches env lim entry = []" if "ValuesX entry = []"
    using that by (simp add: rowBatches_def)
qed (simp_all add: renderCell_def BufSizeLimit_def)

theorem ApplyEventQueries_row_batches_witness:
  "txSent (final (ApplyEventQueriesLim (exampleEnv (\<lambda>q. None) (\<lambda>e. False) (\<lambda>e. False)) 40
       (exampleEntry [[Some ''1'', Some ''x''], [Some ''2'', None], [Some ''3'', None]])))
   = [''SET @@session.foreign_key_checks = 0'', ''create database d'', ''create table t'',
      ''replace into `s`.`t` values ('' @ [CHR 0x27] @ ''1'' @ [CHR 0x27] @ '','' @ [CHR 0x27] @ ''x'' @ [CHR 0x27]
        @ ''),('' @ [CHR 0x27] @ ''2'' @ [CHR 0x27] @ '',NULL)'',
      ''replace into `s`.`t` values ('' @ [CHR 0x27] @ ''3'' @ [CHR 0x27] @ '',NULL)'']
   \<and> txSent (final (ApplyEventQueries (exampleEnv (\<lambda>q. None) (\<lambda>e. False) (\<lambda>e. False))
       (exampleEntry [[Some ''1'', Some ''x''], [Some ''2'', None], [Some ''3'', None]])))
   = [''SET @@session.foreign_key_checks = 0'', ''create database d'', ''create table t'',
      ''replace into `s`.`t` values ('' @ [CHR 0x27] @ ''1'' @ [CHR 0x27] @ '','' @ [CHR 0x27] @ ''x'' @ [CHR 0x27]
        @ ''),('' @ [CHR 0x27] @ ''2'' @ [CHR 0x27] @ '',NULL),('' @ [CHR 0x27] @ ''3'' @ [CHR 0x27] @ '',NULL)'']
   \<and> txSent (final (ApplyEventQueries (exampleEnv (\<lambda>q. None) (\<lambda>e. False) (\<lambda>e. False)) (exampleEntry [])))
   = [''SET @@session.foreign_key_checks = 0'', ''create database d'', ''create table t'']"
proof -
  let ?env = "exampleEnv (\<lambda>q. None) (\<lambda>e. False) (\<lambda>e. False)"
  let ?entry = "exampleEntry [[Some ''1'', Some ''x''], [Some ''2'', None], [Some ''3'', None]]"
  have x: "txExec ?env s q = None" for s q by (simp add: exampleEnv_def)
  have h: "preTxError ?env (exampleEntry rows) = None \<and> txExec ?env [] sessionQuery = None" for rows
    by (simp add: example_preTxError x)
  have d: "ddlStatements (exampleEntry rows) = [''create database d'', ''create table t'']" for rows
    by (simp add: ddlStatements_def exampleEntry_def)
  have hd: "specHeader ?env (exampleEntry rows) = ''replace into `s`.`t` values ''" for rows
    by (simp add: specHeader_def exampleEnv_def exampleEntry_def)
  have g40: "rowBatches ?env 40 ?entry
     = [[''('' @ [CHR 0x27] @ ''1'' @ [CHR 0x27] @ '','' @ [CHR 0x27] @ ''x'' @ [CHR 0x27] @ '')'',
         ''('' @ [CHR 0x27] @ ''2'' @ [CHR 0x27] @ '',NULL)''],
        [''('' @ [CHR 0x27] @ ''3'' @ [CHR 0x27] @ '',NULL)'']]"
    by (simp add: rowBatches_def exampleEnv_def exampleEntry_def specHeader_def renderRow_def
        renderCell_def stmtOf_def)
  have gM: "rowBatches ?env BufSizeLimit ?entry
     = [[''('' @ [CHR 0x27] @ ''1'' @ [CHR 0x27] @ '','' @ [CHR 0x27] @ ''x'' @ [CHR 0x27] @ '')'',
         ''('' @ [CHR 0x27] @ ''2'' @ [CHR 0x27] @ '',NULL)'',
         ''('' @ [CHR 0x27] @ ''3'' @ [CHR 0x27] @ '',NULL)'']]"
    by (simp add: rowBatches_def exampleEnv_def exampleEntry_def specHeader_def renderRow_def
        renderCell_def stmtOf_def BufSizeLimit_def)
  have g0: "rowBatches ?env BufSizeLimit (exampleEntry []) = []"
    by (simp add: rowBatches_def exampleEntry_def)
  have sp: "specSend ?env sent qs = (sent @ qs, [], None)" for sent qs
    by (induction qs arbitrary: sent) (simp_all add: x)
  from ApplyEventQueries_row_batches [of ?env ?entry 40] h [of "[[Some ''1'', Some ''x''], [Some ''2'', None], [Some ''3'', None]]"]
  have a: "txSent (final (ApplyEventQueriesLim ?env 40 ?entry))
        = fst (specSend ?env [sessionQuery]
                 (ddlStatements ?entry @ map (stmtOf (specHeader ?env ?entry)) (rowBatches ?env 40 ?entry)))"
    and b: "txSent (final (ApplyEventQueries ?env ?entry))
        = fst (specSend ?env [sessionQuery]
                 (ddlStatements ?entry @ map (stmtOf (specHeader ?env ?entry)) (rowBatches ?env BufSizeLimit ?entry)))"
    by blast+
  from ApplyEventQueries_row_batches [of ?env "exampleEntry []" 40] h [of "[]"]
  have c: "txSent (final (ApplyEventQueries ?env (exampleEntry [])))
        = fst (specSend ?env [sessionQuery]
                 (ddlStatements (exampleEntry []) @ map (stmtOf (specHeader ?env (exampleEntry [])))
                    (rowBatches ?env BufSizeLimit (exampleEntry []))))"
    by blast
  show ?thesis
    unfolding a b c g40 gM g0 d hd sp by (simp add: stmtOf_def sessionQuery_def)
qed

section \<open>Properties of the table checker and of the merge\<close>

lemma tablesLoop_count:
  "tablesLoop h c tables (ex, amb) =
     (let n = length (filter (\<lambda>(name, table). tableExistCol h table c) tables)
      in (ex \<or> 1 \<le> n, amb \<or> (ex \<and> 1 \<le> n) \<or> 2 \<le> n))"
proof (induction tables arbitrary: ex amb)
  case Nil
  then show ?case by simp
next
  case (Cons x tables)
  obtain name table where x: "x = (name, table)" by (cases x)
  show ?case
    unfolding x by (auto simp: Cons.IH Let_def)
qed

lemma schemasLoop_count:
  "schemasLoop h tn c cat (ex, amb) =
     (let n = sum_list (map (\<lambda>(schema, tables). schemaHits h tn c tables) cat)
      in (ex \<or> 1 \<le> n, amb \<or> (ex \<and> 1 \<le> n) \<or> 2 \<le> n))"
proof (induction cat arbitrary: ex amb tn)
  case Nil
  then show ?case by simp
next
  case (Cons x cat)
  obtain schema tables where x: "x = (schema, tables)" by (cases x)
  show ?case
    unfolding x
    by (cases "map_of tables tn"; cases "tn = []")
       (auto simp: Cons.IH Let_def schemaHits_def tablesLoop_count)
qed

text \<open>
  C6, as amended. checkColumnByName first looks the table up under the schema name of the
  reference (the empty name when there is none); a table found there decides, and the
  reference is never ambiguous. Otherwise a reference with a schema qualifier is not
  found. A reference without one is scanned for in every schema: in the table of the
  given name and, when no table name is given, in every table. The column exists when
  the scan finds it at least once, and it is ambiguous exactly when the scan finds it at
  least twice, with or without a table name in the reference.
\<close>

theorem checkColumnByName_scan:
  "checkColumnByName h t colNameStmt =
     (case (case map_of (schemaTables t) (ciO (cnSchema colNameStmt)) of
              Some tables \<Rightarrow> map_of tables (ciO (cnTable colNameStmt))
            | None \<Rightarrow> None) of
        Some table \<Rightarrow> (tableExistCol h table (ciO (cnName colNameStmt)), False)
      | None \<Rightarrow>
          if ciO (cnSchema colNameStmt) \<noteq> [] then (False, False)
          else (1 \<le> scanHits h t (ciO (cnTable colNameStmt)) (ciO (cnName colNameStmt)),
                2 \<le> scanHits h t (ciO (cnTable colNameStmt)) (ciO (cnName colNameStmt))))"
  by (simp add: checkColumnByName_def Let_def schemasLoop_count scanHits_def split: option.splits)

text \<open>
  A reference \<open>t.c\<close> without a schema, the table \<open>t\<close> with a column \<open>c\<close> in two schemas: it
  is reported ambiguous although it is not a bare column name.
\<close>

theorem checkColumnByName_qualified_ambiguous:
  "checkColumnByName heapC catalogTT (columnRef [] ''t'' ''c'') = (True, True)
   \<and> ciO (cnTable (columnRef [] ''t'' ''c'')) \<noteq> []"
  by code_simp

theorem checkColumnByName_scan_witness:
  "checkColumnByName heapC catalogTT (columnRef [] [] ''c'') = (True, True)
   \<and> checkColumnByName heapC catalogTT (columnRef ''s1'' ''t'' ''c'') = (True, False)
   \<and> checkColumnByName heapC catalogTT (columnRef ''s3'' ''t'' ''c'') = (False, False)
   \<and> checkColumnByName heapC catalogTT (columnRef [] ''t'' ''d'') = (False, False)"
proof -
  have n: "scanHits heapC catalogTT [] ''c'' = 2" "scanHits heapC catalogTT ''t'' ''d'' = 0"
    by code_simp+
  have d: "map_of (schemaTables catalogTT) [] = None"
      "map_of (schemaTables catalogTT) ''s3'' = None"
      "map_of (schemaTables catalogTT) ''s1'' = Some [(''t'', tableC 0)]"
    by (simp_all add: catalogTT_def)
  have e: "tableExistCol heapC (tableC 0) ''c''" by code_simp
  show ?thesis
    using checkColumnByName_scan [of heapC catalogTT "columnRef [] [] ''c''"]
      checkColumnByName_scan [of heapC catalogTT "columnRef ''s1'' ''t'' ''c''"]
      checkColumnByName_scan [of heapC catalogTT "columnRef ''s3'' ''t'' ''c''"]
      checkColumnByName_scan [of heapC catalogTT "columnRef [] ''t'' ''d''"]
    by (simp add: columnRef_def lowerName_def n d e)
qed

text \<open>Whenever mergeAlterToTable returns, the error is nil.\<close>

lemma mergeAlterToTable_nil_error:
  "mergeAlterToTable h oldTable alterTable = Inr r \<Longrightarrow>
     mergeErr r = None \<and> (isOldTable r \<longrightarrow> returned r = oldTable)"
  by (auto simp: mergeAlterToTable_def Let_def split: outcome.splits)

text \<open>
  C1. \<open>CREATE TABLE t (a INT, b INT)\<close> and \<open>ALTER TABLE t DROP COLUMN a, DROP COLUMN z\<close>:
  the second specification names a missing column and mergeAlterToTable returns
  \<open>oldTable\<close>, but the first one has already shifted the shared array of columns: the
  table returned reads \<open>b, b\<close>, not \<open>a, b\<close>.
\<close>

theorem mergeAlterToTable_old_table_changed:
  "viewCols heapAB tableAB = [(''a'', []), (''b'', [])]
   \<and> (case mergeAlterToTable heapAB tableAB alterDropAZ of
        Inl p \<Rightarrow> False
      | Inr r \<Rightarrow> isOldTable r \<and> returned r = tableAB \<and> mergeErr r = None
                 \<and> viewCols (heapAfter r) (returned r) = [(''b'', []), (''b'', [])])"
  by code_simp

text \<open>
  \<open>ALTER TABLE t CHANGE a a2 INT, ADD COLUMN b INT\<close>: the added column is a duplicate and
  \<open>oldTable\<close> is returned, with the change of \<open>a\<close> to \<open>a2\<close> written into it.
\<close>

lemma mergeAlterToTable_change_kept:
  "case mergeAlterToTable heapAB tableAB alterChangeAddB of
     Inl p \<Rightarrow> False
   | Inr r \<Rightarrow> isOldTable r \<and> returned r = tableAB \<and> mergeErr r = None
              \<and> viewCols (heapAfter r) (returned r) = [(''a2'', []), (''b'', [])]"
  by code_simp

text \<open>
  The same with a constraint: the index renamed by the first specification stays renamed
  in \<open>oldTable\<close> when the second one is rejected as a duplicate.
\<close>

lemma mergeAlterToTable_rename_kept:
  "viewConstraints heapK tableK = [(ConstraintIndex, ''k1'')]
   \<and> (case mergeAlterToTable heapK tableK alterRenameAddK of
        Inl p \<Rightarrow> False
      | Inr r \<Rightarrow> isOldTable r \<and> returned r = tableK \<and> mergeErr r = None
                 \<and> viewConstraints (heapAfter r) (returned r) = [(ConstraintIndex, ''k2'')])"
  by code_simp

text \<open>A merge that applies: \<open>ALTER TABLE t DROP COLUMN a\<close> on \<open>t (a INT, b INT)\<close>.\<close>

lemma mergeAlterToTable_applies:
  "case mergeAlterToTable heapAB tableAB alterDropA of
     Inl p \<Rightarrow> False
   | Inr r \<Rightarrow> \<not> isOldTable r \<and> mergeErr r = None
              \<and> viewCols (heapAfter r) (returned r) = [(''b'', [])]"
  by code_simp

text \<open>
  C10. \<open>CREATE TABLE t (a INT, a INT)\<close> and \<open>ALTER TABLE t DROP COLUMN a\<close>: the second
  removal slices the shortened \<open>newTable.Cols\<close> at \<open>[2:]\<close> and the call panics; nothing is
  returned.
\<close>

theorem mergeAlterToTable_panics:
  "viewCols heapAA tableAB = [(''a'', []), (''a'', [])]
   \<and> mergeAlterToTable heapAA tableAB alterDropA = Inl (SliceBoundsOutOfRange 2 1)"
  by code_simp

section \<open>Properties of the subscription handler\<close>

lemma act_step:
  assumes "handlerAct env m a (p, sh) = Some (evs, p1, sh1)" and "pcInv env m bs sh p enq"
  shows "pcInv env m bs sh1 p1 (enq \<or> Enqueued bs \<in> set evs)
       \<and> (\<forall>tr. ackAfterEnqueue (Reply m) bs (enq \<or> Enqueued bs \<in> set evs) tr
               \<longrightarrow> ackAfterEnqueue (Reply m) bs enq (evs @ tr))"
  using assms
  by (cases a; cases p)
     (auto simp: pcInv_def split: sum.splits option.splits if_splits list.splits pc.splits)

lemma runActs_order:
  assumes "runActs env m acts (p, sh) = Some (tr, c)" and "pcInv env m bs sh p enq"
  shows "ackAfterEnqueue (Reply m) bs enq tr"
  using assms
proof (induction acts arbitrary: p sh tr c enq)
  case Nil
  then show ?case by simp
next
  case (Cons a acts)
  from Cons.prems(1) obtain evs p1 sh1 where a: "handlerAct env m a (p, sh) = Some (evs, p1, sh1)"
    by (auto split: option.splits)
  with Cons.prems(1) obtain tr1 where r: "runActs env m acts (p1, sh1) = Some (tr1, c)"
    and tr: "tr = evs @ tr1"
    by (auto split: option.splits)
  from act_step [OF a Cons.prems(2)]
  have i: "pcInv env m bs sh1 p1 (enq \<or> Enqueued bs \<in> set evs)"
    and s: "ackAfterEnqueue (Reply m) bs (enq \<or> Enqueued bs \<in> set evs) tr1
               \<longrightarrow> ackAfterEnqueue (Reply m) bs enq (evs @ tr1)"
    by blast+
  from Cons.IH [OF r i] s tr show ?case by simp
qed

text \<open>
  C9. A segment that is not the final one is acknowledged on its reply subject in the
  same step, whatever the state of the queue. For a final segment, in every run of the
  handler together with the consumer of the queue and the shutdown, every
  acknowledgement comes after the payload was enqueued. At the \<open>select\<close>, with the queue
  full and the shutdown channel open, the handler cannot move: the acknowledgement waits
  for the queue. When the shutdown case is taken the handler returns without
  acknowledging.
\<close>

theorem subscribeNats_ack_order:
  "(nmmHandle env (incrNMM sh) (Data m) = Inr (False, buf) \<and> Publish env (Reply m) = None \<longrightarrow>
      handlerAct env m Proceed (Entry, sh) = Some ([Published (Reply m)], Returned, sh\<lparr>incrNMM := buf\<rparr>))
   \<and> (nmmHandle env (incrNMM sh) (Data m) = Inr (True, bs)
        \<and> runActs env m acts (Entry, sh) = Some (tr, c) \<longrightarrow>
      ackAfterEnqueue (Reply m) bs False tr)
   \<and> (queueCap env \<le> length (incrBytesQueue sh) \<and> \<not> shutdownCh sh \<longrightarrow>
      handlerAct env m Proceed (AtSelect bs, sh) = None
      \<and> handlerAct env m SelectShutdown (AtSelect bs, sh) = None
      \<and> handlerAct env m SelectSend (AtSelect bs, sh) = None)
   \<and> (shutdownCh sh \<longrightarrow> handlerAct env m SelectShutdown (AtSelect bs, sh) = Some ([], Returned, sh))"
proof (intro conjI impI)
  assume "nmmHandle env (incrNMM sh) (Data m) = Inr (True, bs)
        \<and> runActs env m acts (Entry, sh) = Some (tr, c)"
  then show "ackAfterEnqueue (Reply m) bs False tr"
    using runActs_order [of env m acts Entry sh tr c bs False] by (simp add: pcInv_def)
qed auto

theorem subscribeNats_ack_order_witness:
  "runActs (exampleNats 1) \<lparr>Data = ''Fxy'', Reply = ''r''\<rparr>
      [Proceed, ConsumerReceive, SelectSend, Proceed] (Entry, exampleShared [''old''])
     = Some ([Dequeued ''old'', Enqueued ''xy'', Published ''r''], Returned,
             \<lparr>incrBytesQueue = [''xy''], shutdownCh = False, memory2 = 2, incrNMM = [],
              Stage = ''StageWaitingForMasterToSendEvent''\<rparr>)
   \<and> runActs (exampleNats 1) \<lparr>Data = ''Fxy'', Reply = ''r''\<rparr>
      [Proceed, SelectSend] (Entry, exampleShared [''old'']) = None
   \<and> handlerAct (exampleNats 1) \<lparr>Data = ''Sxy'', Reply = ''r''\<rparr> Proceed (Entry, exampleShared [''old''])
     = Some ([Published ''r''], Returned, (exampleShared [''old''])\<lparr>incrNMM := ''xy''\<rparr>)
   \<and> ackAfterEnqueue ''r'' ''xy'' False [Dequeued ''old'', Enqueued ''xy'', Published ''r'']"
proof -
  let ?env = "exampleNats 1"
  let ?m = "\<lparr>Data = ''Fxy'', Reply = ''r''\<rparr>"
  let ?sh = "exampleShared [''old'']"
  have h: "nmmHandle ?env (incrNMM ?sh) (Data ?m) = Inr (True, ''xy'')"
    by (simp add: exampleNats_def exampleShared_def)
  have r: "runActs ?env ?m [Proceed, ConsumerReceive, SelectSend, Proceed] (Entry, ?sh)
     = Some ([Dequeued ''old'', Enqueued ''xy'', Published ''r''], Returned,
             \<lparr>incrBytesQueue = [''xy''], shutdownCh = False, memory2 = 2, incrNMM = [],
              Stage = ''StageWaitingForMasterToSendEvent''\<rparr>)"
    by (simp add: exampleNats_def exampleShared_def)
  have b: "runActs ?env ?m [Proceed, SelectSend] (Entry, ?sh) = None"
    by (simp add: exampleNats_def exampleShared_def)
  have n: "nmmHandle ?env (incrNMM ?sh) (Data \<lparr>Data = ''Sxy'', Reply = ''r''\<rparr>) = Inr (False, ''xy'')"
      "Publish ?env (Reply \<lparr>Data = ''Sxy'', Reply = ''r''\<rparr>) = None"
    by (simp_all add: exampleNats_def exampleShared_def)
  from subscribeNats_ack_order [of ?env ?sh ?m "''xy''" "''xy''"
        "[Proceed, ConsumerReceive, SelectSend, Proceed]"
        "[Dequeued ''old'', Enqueued ''xy'', Published ''r'']"] h r
  have o: "ackAfterEnqueue ''r'' ''xy'' False [Dequeued ''old'', Enqueued ''xy'', Published ''r'']"
    by simp
  from subscribeNats_ack_order [of ?env ?sh "\<lparr>Data = ''Sxy'', Reply = ''r''\<rparr>" "''xy''"] n
  have a: "handlerAct ?env \<lparr>Data = ''Sxy'', Reply = ''r''\<rparr> Proceed (Entry, ?sh)
     = Some ([Published ''r''], Returned, ?sh\<lparr>incrNMM := ''xy''\<rparr>)"
    by simp
  have f: "queueCap ?env \<le> length (incrBytesQueue ?sh) \<and> \<not> shutdownCh ?sh"
    by (simp add: exampleNats_def exampleShared_def)
  from subscribeNats_ack_order [of ?env ?sh ?m "''xy''" "''xy''"] f
  have "handlerAct ?env ?m SelectSend (AtSelect ''xy'', ?sh) = None" by blast
  with r b a o show ?thesis by simp
qed

end
